theory Spec2Isabelle
  imports Main "HOL-Library.Char_ord" "HOL-Library.List_Lexorder"
begin

section \<open>Text normaliser (common/models.py)\<close>

text \<open>
  Strings are byte lists.  The three characters that matter to a \<^verbatim>\<open>LIKE\<close> pattern
  are the two wildcards and the escape character.
\<close>

definition percent :: char where
  "percent = CHR ''%''"

definition underscore :: char where
  "underscore = CHR ''_''"

definition backslash :: char where
  "backslash = CHR 0x5C"

text \<open>
  \<^verbatim>\<open>ILIKE_ESCAPE = re.compile(r"([\%_])")\<close> and
  \<^verbatim>\<open>escape_ilike(value) = ILIKE_ESCAPE.sub(r"\\\1", value)\<close>:
  the character class holds exactly the percent sign and the underscore, every match is one
  character, and the replacement is a backslash followed by the matched character.
\<close>

fun escape_ilike :: "string \<Rightarrow> string" where
  "escape_ilike [] = []"
| "escape_ilike (c # cs) =
     (if c = percent \<or> c = underscore then backslash # c # escape_ilike cs
      else c # escape_ilike cs)"

text \<open>
  \<^verbatim>\<open>generate_regexp(attribute)\<close> builds the SQL text
  \<^verbatim>\<open>regexp_replace(attribute, '([\%_])', '\\\1', 'g')\<close>.  The function below is the value
  of that SQL expression on the value of the attribute: with the flag \<^verbatim>\<open>g\<close> every
  character of the class (percent, underscore) is replaced by a backslash and itself.
\<close>

fun generate_regexp :: "string \<Rightarrow> string" where
  "generate_regexp [] = []"
| "generate_regexp (c # cs) =
     (if c = percent \<or> c = underscore then backslash # c # generate_regexp cs
      else c # generate_regexp cs)"

section \<open>The SQL string operators used by the queries\<close>

text \<open>Case folding on the ASCII letters, as \<^verbatim>\<open>UPPER\<close> and \<^verbatim>\<open>ILIKE\<close> do on them.\<close>

definition lower_char :: "char \<Rightarrow> char" where
  "lower_char c =
     (let n = (of_char c :: nat) in if 65 \<le> n \<and> n \<le> 90 then char_of (n + 32) else c)"

definition upper_char :: "char \<Rightarrow> char" where
  "upper_char c =
     (let n = (of_char c :: nat) in if 97 \<le> n \<and> n \<le> 122 then char_of (n - 32) else c)"

definition UPPER :: "string \<Rightarrow> string" where
  "UPPER s = map upper_char s"

definition LOWER :: "string \<Rightarrow> string" where
  "LOWER s = map lower_char s"

text \<open>
  \<^verbatim>\<open>text LIKE pattern\<close> with the default escape character, the backslash: a backslash
  makes the next pattern character literal, a percent sign matches any run of characters
  (also the empty one), an underscore matches one character, any other character matches
  itself, and the whole text must be consumed.  A pattern that ends in a lone backslash is an
  error in the database; the patterns of this program all end in a percent sign that
  the query appends, and the function answers \<open>False\<close> for such a pattern.
\<close>

fun like_match :: "string \<Rightarrow> string \<Rightarrow> bool" where
  "like_match [] t = (t = [])"
| "like_match (p # ps) t =
     (if p = backslash then
        (case ps of
           [] \<Rightarrow> False
         | q # qs \<Rightarrow> (case t of [] \<Rightarrow> False | c # cs \<Rightarrow> q = c \<and> like_match qs cs))
      else if p = percent then
        (like_match ps t \<or> (case t of [] \<Rightarrow> False | c # cs \<Rightarrow> like_match (p # ps) cs))
      else if p = underscore then
        (case t of [] \<Rightarrow> False | c # cs \<Rightarrow> like_match ps cs)
      else
        (case t of [] \<Rightarrow> False | c # cs \<Rightarrow> p = c \<and> like_match ps cs))"

text \<open>\<^verbatim>\<open>text ILIKE pattern\<close>: \<^verbatim>\<open>LIKE\<close> after folding the case of both sides.\<close>

definition ILIKE :: "string \<Rightarrow> string \<Rightarrow> bool" where
  "ILIKE t p = like_match (LOWER p) (LOWER t)"

section \<open>Clue registry: the TruthBullet model and its queries (common/models.py)\<close>

text \<open>
  A row of the table of truth bullets.  The database stores the aliases as an array; the
  queries read that array with \<^verbatim>\<open>unnest\<close>.
\<close>

record TruthBullet =
  bullet_id :: int
  channel_id :: int
  trigger :: string
  aliases :: "string list"
  description :: string
  hidden :: bool
  found :: bool
  finder :: "int option"

text \<open>The table in storage order; \<^verbatim>\<open>query_first\<close> answers the first row of the result.\<close>

type_synonym bullet_table = "TruthBullet list"

definition query_first :: "(TruthBullet \<Rightarrow> bool) \<Rightarrow> bullet_table \<Rightarrow> TruthBullet option" where
  "query_first wh tbl = List.find wh tbl"

text \<open>
  The \<^verbatim>\<open>WHERE\<close> clause of \<^verbatim>\<open>FIND_TRUTH_BULLET_STR\<close>:
  \<^verbatim>\<open>channel_id = $1 AND found = false AND ($2 ILIKE CONCAT('%', <escaped trigger>, '%')
  OR EXISTS (SELECT 1 FROM unnest(aliases) AS alias WHERE $2 ILIKE CONCAT('%', <escaped alias>, '%')))\<close>.
\<close>

definition FIND_TRUTH_BULLET_STR :: "int \<Rightarrow> string \<Rightarrow> TruthBullet \<Rightarrow> bool" where
  "FIND_TRUTH_BULLET_STR p1 p2 row \<longleftrightarrow>
     channel_id row = p1 \<and> found row = False \<and>
     (ILIKE p2 ([percent] @ generate_regexp (trigger row) @ [percent]) \<or>
      list_ex (\<lambda>alias. ILIKE p2 ([percent] @ generate_regexp alias @ [percent])) (aliases row))"

text \<open>
  The \<^verbatim>\<open>WHERE\<close> clauses of \<^verbatim>\<open>VALIDATE_TRUTH_BULLET_STR\<close> and of
  \<^verbatim>\<open>FIND_TRUTH_BULLET_EXACT_STR\<close>, each as the source writes it.
\<close>

definition VALIDATE_TRUTH_BULLET_STR :: "int \<Rightarrow> string \<Rightarrow> TruthBullet \<Rightarrow> bool" where
  "VALIDATE_TRUTH_BULLET_STR p1 p2 row \<longleftrightarrow>
     channel_id row = p1 \<and>
     (UPPER p2 = UPPER (trigger row) \<or>
      list_ex (\<lambda>alias. UPPER p2 = UPPER alias) (aliases row))"

definition FIND_TRUTH_BULLET_EXACT_STR :: "int \<Rightarrow> string \<Rightarrow> TruthBullet \<Rightarrow> bool" where
  "FIND_TRUTH_BULLET_EXACT_STR p1 p2 row \<longleftrightarrow>
     channel_id row = p1 \<and>
     (UPPER p2 = UPPER (trigger row) \<or>
      list_ex (\<lambda>alias. UPPER p2 = UPPER alias) (aliases row))"

text \<open>\<^verbatim>\<open>TruthBullet.find\<close>, \<^verbatim>\<open>TruthBullet.find_exact\<close> and \<^verbatim>\<open>TruthBullet.validate\<close>.\<close>

definition TruthBullet_find :: "bullet_table \<Rightarrow> int \<Rightarrow> string \<Rightarrow> TruthBullet option" where
  "TruthBullet_find tbl channel content = query_first (FIND_TRUTH_BULLET_STR channel content) tbl"

definition find_exact :: "bullet_table \<Rightarrow> int \<Rightarrow> string \<Rightarrow> TruthBullet option" where
  "find_exact tbl channel content =
     query_first (FIND_TRUTH_BULLET_EXACT_STR channel content) tbl"

text \<open>
  \<^verbatim>\<open>validate\<close> runs its query on the raw client: the first row of the result is the
  selected constant \<open>1\<close>, and the method answers whether there is one.
\<close>

definition validate :: "bullet_table \<Rightarrow> int \<Rightarrow> string \<Rightarrow> bool" where
  "validate tbl channel trig =
     (map_option (\<lambda>row. 1 :: int) (query_first (VALIDATE_TRUTH_BULLET_STR channel trig) tbl)
        \<noteq> None)"

text \<open>
  The object in memory holds the aliases as a set (the validator \<^verbatim>\<open>set(value)\<close>), and
  \<^verbatim>\<open>model_dump\<close> writes that set as \<^verbatim>\<open>sorted(value)\<close>: the array without its duplicates,
  in the order of the strings.
\<close>

definition model_dump :: "TruthBullet \<Rightarrow> TruthBullet" where
  "model_dump self = self\<lparr>aliases := sort (remdups (aliases self))\<rparr>"

text \<open>
  \<^verbatim>\<open>TruthBullet.save\<close>: \<^verbatim>\<open>update(where={"id": self.id}, data=self.model_dump())\<close>.
  Every column of the row with this identifier is overwritten with the dumped fields of the
  object in memory; when no row has the identifier the client answers \<^verbatim>\<open>None\<close> and
  nothing changes.
\<close>

definition TruthBullet_save :: "bullet_table \<Rightarrow> TruthBullet \<Rightarrow> bullet_table" where
  "TruthBullet_save tbl self =
     map (\<lambda>row. if bullet_id row = bullet_id self then model_dump self else row) tbl"

text \<open>
  Modelled from the spec: \<^verbatim>\<open>commit_discovery(clue, finder_id)\<close> is defined by the
  message handler of the bot, which is not among the modules embedded here.  The spec:
  it sets \<^verbatim>\<open>found = true\<close>, \<^verbatim>\<open>finder = finder_id\<close>, and persists; the caller guarantees that
  \<^verbatim>\<open>found\<close> was false, the registry does not check it again.
\<close>

definition commit_discovery :: "bullet_table \<Rightarrow> TruthBullet \<Rightarrow> int \<Rightarrow> bullet_table \<times> TruthBullet" where
  "commit_discovery tbl clue finder_id =
     (let clue' = clue\<lparr>found := True, finder := Some finder_id\<rparr>
      in (TruthBullet_save tbl clue', clue'))"

text \<open>
  Modelled from the spec: the discovery path of a message, part of the same missing handler.
  The spec: a message event goes to the clue registry lookup
  (\<^verbatim>\<open>find_substring\<close>) and, on a match, to the discovery-commit.
\<close>

definition discover :: "bullet_table \<Rightarrow> int \<Rightarrow> int \<Rightarrow> string \<Rightarrow> bullet_table" where
  "discover tbl channel user content =
     (case TruthBullet_find tbl channel content of
        None \<Rightarrow> tbl
      | Some clue \<Rightarrow> fst (commit_discovery tbl clue user))"

text \<open>
  Modelled from the spec: messages are handled as independent, possibly concurrent units of
  work, so the lookup of one handler and its commit may have the steps of other handlers in
  between.  A state is the table together with the lookups whose commit is still to come,
  each with the clue it read and the user who wrote the message.  A step is the lookup of a
  new message or the commit of a pending lookup.
\<close>

type_synonym registry_state = "bullet_table \<times> (TruthBullet \<times> int) list"

inductive handlers :: "registry_state \<Rightarrow> registry_state \<Rightarrow> bool"
  for s0 :: registry_state where
  handlers_init: "handlers s0 s0"
| handlers_lookup:
    "handlers s0 (tbl, pending) \<Longrightarrow> TruthBullet_find tbl channel content = Some clue \<Longrightarrow>
     handlers s0 (tbl, pending @ [(clue, user)])"
| handlers_commit:
    "handlers s0 (tbl, pending) \<Longrightarrow> (clue, user) \<in> set pending \<Longrightarrow>
     handlers s0 (fst (commit_discovery tbl clue user), remove1 (clue, user) pending)"

text \<open>The invariant of the data model: a finder is recorded exactly for the found clues.\<close>

definition finder_iff_found :: "TruthBullet \<Rightarrow> bool" where
  "finder_iff_found b \<longleftrightarrow> (finder b \<noteq> None) = found b"

section \<open>Errors\<close>

text \<open>
  The exceptions the modelled code raises.  \<^verbatim>\<open>BadArgument\<close> carries its message, which is
  what tells one failure of a command from another.  \<open>AttributeError\<close> is what Python raises
  when a field of \<^verbatim>\<open>None\<close> is read; \<open>UniqueViolationError\<close> and \<open>RecordNotFoundError\<close> are the
  errors of the database client.
\<close>

datatype error =
    BadArgument string
  | CustomCheckFailure
  | RecordNotFoundError
  | UniqueViolationError
  | AttributeError

section \<open>Configuration resolver (common/models.py)\<close>

datatype InvestigationType = DEFAULT | COMMAND_ONLY

text \<open>\<^verbatim>\<open>InvestigationType(mode)\<close>: the enumeration member of an integer, or \<^verbatim>\<open>ValueError\<close>.\<close>

definition InvestigationType_of :: "int \<Rightarrow> InvestigationType option" where
  "InvestigationType_of v = (if v = 1 then Some DEFAULT else if v = 2 then Some COMMAND_ONLY else None)"

record Names =
  names_guild_id :: int
  singular_bullet :: string
  plural_bullet :: string
  singular_truth_bullet_finder :: string
  plural_truth_bullet_finder :: string
  best_bullet_finder :: string
  singular_currency_name :: string
  plural_currency_name :: string

record BulletConfig =
  bullets_guild_id :: int
  bullets_enabled :: bool
  bullet_chan_id :: "int option"
  investigation_type :: InvestigationType
  best_bullet_finder_role :: "int option"

record GachaConfig =
  gacha_guild_id :: int
  currency_cost :: int

text \<open>
  A \<^verbatim>\<open>GuildConfig\<close> object: the columns of the root row and the three relation fields,
  which are \<^verbatim>\<open>None\<close> unless the query asked for them and the related row exists.
\<close>

record GuildConfig =
  guild_id :: int
  player_role :: "int option"
  names :: "Names option"
  bullets :: "BulletConfig option"
  gacha :: "GachaConfig option"

text \<open>
  The four tables of the configuration, in storage order.  The relation fields of a stored
  root row are not read: \<open>find_unique\<close> fills them from the other tables.
\<close>

record database =
  guildconfig :: "GuildConfig list"
  names_table :: "Names list"
  bulletconfig :: "BulletConfig list"
  gachaconfig :: "GachaConfig list"

text \<open>
  The column defaults come from the database schema, which is not part of the modelled
  sources: they are a parameter.  A created row takes the defaults and the given \<^verbatim>\<open>guild_id\<close>.
\<close>

record schema_defaults =
  new_guildconfig :: GuildConfig
  new_names :: Names
  new_bullets :: BulletConfig
  new_gacha :: GachaConfig

text \<open>The keys of a \<^verbatim>\<open>PrismaGuildConfigInclude\<close> dictionary.\<close>

datatype include_key = names_key | bullets_key | gacha_key

definition find_unique :: "database \<Rightarrow> int \<Rightarrow> include_key list \<Rightarrow> GuildConfig option" where
  "find_unique dbs g inc =
     (case List.find (\<lambda>r. guild_id r = g) (guildconfig dbs) of
        None \<Rightarrow> None
      | Some r \<Rightarrow> Some (r\<lparr>
          names := (if names_key \<in> set inc
                    then List.find (\<lambda>n. names_guild_id n = g) (names_table dbs) else None),
          bullets := (if bullets_key \<in> set inc
                      then List.find (\<lambda>b. bullets_guild_id b = g) (bulletconfig dbs) else None),
          gacha := (if gacha_key \<in> set inc
                    then List.find (\<lambda>c. gacha_guild_id c = g) (gachaconfig dbs) else None)\<rparr>))"

text \<open>\<^verbatim>\<open>prisma().create(data={"guild_id": guild_id})\<close> on the root table.\<close>

definition create_guildconfig :: "schema_defaults \<Rightarrow> database \<Rightarrow> int \<Rightarrow> GuildConfig \<times> database" where
  "create_guildconfig d dbs g =
     (let r = (new_guildconfig d)\<lparr>guild_id := g, names := None, bullets := None, gacha := None\<rparr>
      in (r, dbs\<lparr>guildconfig := guildconfig dbs @ [r]\<rparr>))"

text \<open>
  The loop of \<^verbatim>\<open>_fill_in_include\<close> over the keys of \<^verbatim>\<open>include\<close>: \<^verbatim>\<open>add_data\<close> gets the
  key of every requested relation that is \<^verbatim>\<open>None\<close> on \<^verbatim>\<open>self\<close>.
\<close>

fun fill_in_loop :: "GuildConfig \<Rightarrow> include_key list \<Rightarrow> include_key set \<Rightarrow> include_key set" where
  "fill_in_loop self [] add_data = add_data"
| "fill_in_loop self (entry # rest) add_data =
     (let a1 = (if entry = names_key \<and> names self = None then insert names_key add_data else add_data);
          a2 = (if entry = bullets_key \<and> bullets self = None then insert bullets_key a1 else a1);
          a3 = (if entry = gacha_key \<and> gacha self = None then insert gacha_key a2 else a2)
      in fill_in_loop self rest a3)"

text \<open>
  \<^verbatim>\<open>prisma().update(where={"guild_id": g}, data=add_data, include=include)\<close> with nested
  \<^verbatim>\<open>{"create": {"guild_id": g}}\<close> entries: every named relation gets a new row with the
  defaults; a relation that already has its row violates the uniqueness of the owning key.
  The answer is the root row read again with the relations of \<^verbatim>\<open>include\<close>.
\<close>

definition update_create ::
  "schema_defaults \<Rightarrow> database \<Rightarrow> int \<Rightarrow> include_key set \<Rightarrow> include_key list
     \<Rightarrow> (error + GuildConfig option) \<times> database" where
  "update_create d dbs g add_data inc =
     (if (names_key \<in> add_data \<and> List.find (\<lambda>n. names_guild_id n = g) (names_table dbs) \<noteq> None)
         \<or> (bullets_key \<in> add_data \<and> List.find (\<lambda>b. bullets_guild_id b = g) (bulletconfig dbs) \<noteq> None)
         \<or> (gacha_key \<in> add_data \<and> List.find (\<lambda>c. gacha_guild_id c = g) (gachaconfig dbs) \<noteq> None)
      then (Inl UniqueViolationError, dbs)
      else
        (let dbs' = dbs\<lparr>
               names_table := (if names_key \<in> add_data
                  then names_table dbs @ [(new_names d)\<lparr>names_guild_id := g\<rparr>] else names_table dbs),
               bulletconfig := (if bullets_key \<in> add_data
                  then bulletconfig dbs @ [(new_bullets d)\<lparr>bullets_guild_id := g\<rparr>] else bulletconfig dbs),
               gachaconfig := (if gacha_key \<in> add_data
                  then gachaconfig dbs @ [(new_gacha d)\<lparr>gacha_guild_id := g\<rparr>] else gachaconfig dbs)\<rparr>
         in (Inr (find_unique dbs' g inc), dbs')))"

text \<open>
  \<^verbatim>\<open>GuildConfigMixin._fill_in_include\<close>.  The result of the update is bound to the local
  \<^verbatim>\<open>config\<close>; the method ends with \<^verbatim>\<open>return self\<close>.
\<close>

definition fill_in_include ::
  "schema_defaults \<Rightarrow> database \<Rightarrow> GuildConfig \<Rightarrow> include_key list
     \<Rightarrow> (error + GuildConfig) \<times> database" where
  "fill_in_include d dbs self inc =
     (if inc = [] then (Inr self, dbs)
      else
        (let add_data = fill_in_loop self inc {}
         in if add_data \<noteq> {} then
              (case update_create d dbs (guild_id self) add_data inc of
                 (Inl e, dbs') \<Rightarrow> (Inl e, dbs')
               | (Inr config, dbs') \<Rightarrow> (Inr self, dbs'))
            else (Inr self, dbs)))"

text \<open>\<^verbatim>\<open>GuildConfigMixin.get\<close>, \<^verbatim>\<open>get_or_none\<close> and \<^verbatim>\<open>get_or_create\<close>.\<close>

definition GuildConfig_get ::
  "schema_defaults \<Rightarrow> database \<Rightarrow> int \<Rightarrow> include_key list \<Rightarrow> (error + GuildConfig) \<times> database" where
  "GuildConfig_get d dbs g inc =
     (case find_unique dbs g inc of
        None \<Rightarrow> (Inl RecordNotFoundError, dbs)
      | Some config \<Rightarrow> fill_in_include d dbs config inc)"

definition GuildConfig_get_or_none ::
  "schema_defaults \<Rightarrow> database \<Rightarrow> int \<Rightarrow> include_key list
     \<Rightarrow> (error + GuildConfig option) \<times> database" where
  "GuildConfig_get_or_none d dbs g inc =
     (case find_unique dbs g inc of
        None \<Rightarrow> (Inr None, dbs)
      | Some config \<Rightarrow>
          (case fill_in_include d dbs config inc of
             (Inl e, dbs') \<Rightarrow> (Inl e, dbs')
           | (Inr c, dbs') \<Rightarrow> (Inr (Some c), dbs')))"

definition GuildConfig_get_or_create ::
  "schema_defaults \<Rightarrow> database \<Rightarrow> int \<Rightarrow> include_key list \<Rightarrow> (error + GuildConfig) \<times> database" where
  "GuildConfig_get_or_create d dbs g inc =
     (case find_unique dbs g inc of
        Some config \<Rightarrow> fill_in_include d dbs config inc
      | None \<Rightarrow>
          (let (config, dbs') = create_guildconfig d dbs g
           in fill_in_include d dbs' config inc))"

section \<open>Investigation settings and the set of message-enabled guilds (exts/bullet_config.py, main.py)\<close>

text \<open>\<^verbatim>\<open>GetMethodsMixin.get_or_create\<close> of \<^verbatim>\<open>BulletConfig\<close>, and \<^verbatim>\<open>BulletConfig.save\<close>.\<close>

definition BulletConfig_get_or_create ::
  "schema_defaults \<Rightarrow> database \<Rightarrow> int \<Rightarrow> BulletConfig \<times> database" where
  "BulletConfig_get_or_create d dbs g =
     (case List.find (\<lambda>b. bullets_guild_id b = g) (bulletconfig dbs) of
        Some b \<Rightarrow> (b, dbs)
      | None \<Rightarrow>
          (let b = (new_bullets d)\<lparr>bullets_guild_id := g\<rparr>
           in (b, dbs\<lparr>bulletconfig := bulletconfig dbs @ [b]\<rparr>)))"

definition BulletConfig_save :: "database \<Rightarrow> BulletConfig \<Rightarrow> database" where
  "BulletConfig_save dbs self =
     dbs\<lparr>bulletconfig :=
          map (\<lambda>row. if bullets_guild_id row = bullets_guild_id self then self else row)
            (bulletconfig dbs)\<rparr>"

text \<open>The database together with the set \<^verbatim>\<open>bot.msg_enabled_bullets_guilds\<close>.\<close>

record bot_state =
  db :: database
  msg_enabled_bullets_guilds :: "int set"

text \<open>
  Modelled from the spec: \<^verbatim>\<open>ctx.fetch_config(include)\<close> is defined in \<^verbatim>\<open>common/utils.py\<close>,
  which is not among the modules embedded here.  The spec: a configuration-scoped command
  goes through the resolver's \<^verbatim>\<open>get_or_create\<close>.
\<close>

definition fetch_config ::
  "schema_defaults \<Rightarrow> database \<Rightarrow> int \<Rightarrow> include_key list \<Rightarrow> (error + GuildConfig) \<times> database" where
  "fetch_config d dbs g inc = GuildConfig_get_or_create d dbs g inc"

text \<open>\<^verbatim>\<open>BulletConfigCMDs.set_investigation_mode\<close>.\<close>

definition set_investigation_mode ::
  "schema_defaults \<Rightarrow> bot_state \<Rightarrow> int \<Rightarrow> int \<Rightarrow> (error + unit) \<times> bot_state" where
  "set_investigation_mode d st g mode =
     (case InvestigationType_of mode of
        None \<Rightarrow> (Inl (BadArgument ''Invalid investigation mode.''), st)
      | Some ty \<Rightarrow>
          (let (bullet_config, db1) = BulletConfig_get_or_create d (db st) g;
               bullet_config' = bullet_config\<lparr>investigation_type := ty\<rparr>;
               db2 = BulletConfig_save db1 bullet_config';
               guilds = msg_enabled_bullets_guilds st;
               guilds' = (if ty = COMMAND_ONLY then guilds - {g}
                          else if bullets_enabled bullet_config' then insert g guilds
                          else guilds)
           in (Inr (), \<lparr>db = db2, msg_enabled_bullets_guilds = guilds'\<rparr>)))"

text \<open>
  \<^verbatim>\<open>BulletConfigCMDs.enable_check\<close>; a role or channel identifier is false as a condition
  when it is \<^verbatim>\<open>None\<close> or zero.
\<close>

definition falsy :: "int option \<Rightarrow> bool" where
  "falsy v = (case v of None \<Rightarrow> True | Some n \<Rightarrow> n = 0)"

definition enable_check :: "GuildConfig \<Rightarrow> error + unit" where
  "enable_check config =
     (if falsy (player_role config) then Inl CustomCheckFailure
      else if (case bullets config of None \<Rightarrow> True | Some b \<Rightarrow> falsy (bullet_chan_id b))
      then Inl CustomCheckFailure
      else Inr ())"

text \<open>
  \<^verbatim>\<open>BulletConfigCMDs.toggle_bullets\<close>.  Reading \<^verbatim>\<open>config.bullets.bullets_enabled\<close> when
  \<^verbatim>\<open>config.bullets\<close> is \<^verbatim>\<open>None\<close> raises; what \<open>fetch_config\<close> wrote before stays written.
\<close>

definition toggle_bullets ::
  "schema_defaults \<Rightarrow> bot_state \<Rightarrow> int \<Rightarrow> bool \<Rightarrow> (error + unit) \<times> bot_state" where
  "toggle_bullets d st g toggle =
     (case fetch_config d (db st) g [bullets_key] of
        (Inl e, db1) \<Rightarrow> (Inl e, st\<lparr>db := db1\<rparr>)
      | (Inr config, db1) \<Rightarrow>
          (case bullets config of
             None \<Rightarrow> (Inl AttributeError, st\<lparr>db := db1\<rparr>)
           | Some b \<Rightarrow>
               (case (if \<not> bullets_enabled b \<and> toggle then enable_check config else Inr ()) of
                  Inl e \<Rightarrow> (Inl e, st\<lparr>db := db1\<rparr>)
                | Inr u \<Rightarrow>
                    (let b' = b\<lparr>bullets_enabled := toggle\<rparr>;
                         db2 = BulletConfig_save db1 b';
                         guilds = msg_enabled_bullets_guilds st;
                         guilds' = (if investigation_type b' \<noteq> COMMAND_ONLY
                                    then (if toggle then insert g guilds else guilds - {g})
                                    else guilds)
                     in (Inr (), \<lparr>db = db2, msg_enabled_bullets_guilds = guilds'\<rparr>)))))"

text \<open>
  The start of the bot (\<^verbatim>\<open>start\<close> in main.py): the set is created empty and receives the
  \<^verbatim>\<open>guild_id\<close> of every row that \<^verbatim>\<open>find_many\<close> answers for
  \<^verbatim>\<open>bullets_enabled = True\<close> and \<^verbatim>\<open>investigation_type\<close> not \<^verbatim>\<open>COMMAND_ONLY\<close>.
\<close>

definition find_many_enabled :: "database \<Rightarrow> BulletConfig list" where
  "find_many_enabled dbs =
     filter (\<lambda>m. bullets_enabled m = True \<and> investigation_type m \<noteq> COMMAND_ONLY) (bulletconfig dbs)"

definition start :: "database \<Rightarrow> bot_state" where
  "start dbs =
     \<lparr>db = dbs,
      msg_enabled_bullets_guilds = fold (\<lambda>model guilds. insert (bullets_guild_id model) guilds)
         (find_many_enabled dbs) {}\<rparr>"

text \<open>
  The invariant of the set: a member guild has a settings row, with the bullets enabled and
  a mode other than \<open>COMMAND_ONLY\<close>.
\<close>

definition msg_enabled_inv :: "bot_state \<Rightarrow> bool" where
  "msg_enabled_inv st \<longleftrightarrow>
     (\<forall>g \<in> msg_enabled_bullets_guilds st.
        case List.find (\<lambda>b. bullets_guild_id b = g) (bulletconfig (db st)) of
          None \<Rightarrow> False
        | Some b \<Rightarrow> bullets_enabled b \<and> investigation_type b \<noteq> COMMAND_ONLY)"

section \<open>Economy ledger and item catalogue (exts/gacha_management.py)\<close>

text \<open>
  The key \<^verbatim>\<open>f"{guild_id}-{user_id}"\<close> of a player row, kept as the pair it is printed from,
  and the table of players: the \<^verbatim>\<open>currency_amount\<close> stored under each key.
\<close>

definition user_guild_id :: "int \<Rightarrow> int \<Rightarrow> int \<times> int" where
  "user_guild_id g u = (g, u)"

type_synonym gachaplayers = "int \<times> int \<rightharpoonup> int"

text \<open>
  \<^verbatim>\<open>prisma().upsert(where={"user_guild_id": key}, data={"create": ..., "update": ...})\<close>:
  the row is created with the given amount when the key is absent and updated otherwise;
  the answer is the row as stored.
\<close>

definition upsert :: "gachaplayers \<Rightarrow> int \<times> int \<Rightarrow> int \<Rightarrow> (int \<Rightarrow> int) \<Rightarrow> int \<times> gachaplayers" where
  "upsert tbl key create_amount update_amount =
     (case tbl key of
        None \<Rightarrow> (create_amount, tbl(key \<mapsto> create_amount))
      | Some c \<Rightarrow> (update_amount c, tbl(key \<mapsto> update_amount c)))"

text \<open>
  The two checks that open each currency command.  The configuration is the object that
  \<^verbatim>\<open>ctx.fetch_config\<close> answered and \<open>user_roles\<close> the roles of the target member.
\<close>

definition player_check :: "GuildConfig \<Rightarrow> int set \<Rightarrow> string \<Rightarrow> error + unit" where
  "player_check config user_roles msg =
     (case player_role config of
        None \<Rightarrow> Inl CustomCheckFailure
      | Some role \<Rightarrow>
          if role = 0 then Inl CustomCheckFailure
          else if role \<notin> user_roles then Inl (BadArgument msg)
          else Inr ())"

text \<open>
  \<^verbatim>\<open>GachaManagement.gacha_give\<close>.  After the upsert the command builds its message from
  \<^verbatim>\<open>config.names.currency_name(amount)\<close> and \<^verbatim>\<open>player.currency_amount\<close>: when
  \<^verbatim>\<open>config.names\<close> is \<^verbatim>\<open>None\<close> that raises, with the row already written.  The answer is
  the new total that the message shows, and the table.
\<close>

definition gacha_give ::
  "GuildConfig \<Rightarrow> int set \<Rightarrow> gachaplayers \<Rightarrow> int \<Rightarrow> int \<Rightarrow> int
     \<Rightarrow> (error + int) \<times> gachaplayers" where
  "gacha_give config user_roles tbl g u amount =
     (case player_check config user_roles ''The user must have the Player role to receive currency.'' of
        Inl e \<Rightarrow> (Inl e, tbl)
      | Inr ok \<Rightarrow>
          (let (player, tbl') = upsert tbl (user_guild_id g u) amount (\<lambda>c. c + amount)
           in case names config of
                None \<Rightarrow> (Inl AttributeError, tbl')
              | Some nm \<Rightarrow> (Inr player, tbl')))"

text \<open>\<^verbatim>\<open>GachaManagement.gacha_remove\<close>, with the same message at its end.\<close>

definition gacha_remove ::
  "GuildConfig \<Rightarrow> int set \<Rightarrow> gachaplayers \<Rightarrow> int \<Rightarrow> int \<Rightarrow> int
     \<Rightarrow> (error + int) \<times> gachaplayers" where
  "gacha_remove config user_roles tbl g u amount =
     (case player_check config user_roles ''The user must have the Player role to remove currency.'' of
        Inl e \<Rightarrow> (Inl e, tbl)
      | Inr ok \<Rightarrow>
          (let (player, tbl') = upsert tbl (user_guild_id g u) amount (\<lambda>c. c - amount)
           in case names config of
                None \<Rightarrow> (Inl AttributeError, tbl')
              | Some nm \<Rightarrow> (Inr player, tbl')))"

text \<open>
  \<^verbatim>\<open>prisma().update_many(where={"user_guild_id": key, "currency_amount": {"gt": 0}},
  data={"currency_amount": 0})\<close>: the number of rows changed, and the table.
\<close>

definition update_many_positive :: "gachaplayers \<Rightarrow> int \<times> int \<Rightarrow> nat \<times> gachaplayers" where
  "update_many_positive tbl key =
     (case tbl key of
        None \<Rightarrow> (0, tbl)
      | Some c \<Rightarrow> if c > 0 then (1, tbl(key \<mapsto> 0)) else (0, tbl))"

text \<open>\<^verbatim>\<open>GachaManagement.gacha_reset_currency\<close>.\<close>

definition gacha_reset_currency ::
  "GuildConfig \<Rightarrow> int set \<Rightarrow> gachaplayers \<Rightarrow> int \<Rightarrow> int \<Rightarrow> (error + unit) \<times> gachaplayers" where
  "gacha_reset_currency config user_roles tbl g u =
     (case player_check config user_roles ''The user must have the Player role to reset currency.'' of
        Inl e \<Rightarrow> (Inl e, tbl)
      | Inr ok \<Rightarrow>
          (let (amount, tbl') = update_many_positive tbl (user_guild_id g u)
           in if amount = 0 then (Inl (BadArgument ''The user has no currency to reset.''), tbl')
              else (Inr (), tbl')))"

text \<open>A row of the item catalogue, with the columns that the creation writes.\<close>

record GachaItem =
  item_guild_id :: int
  name :: string
  item_description :: string
  amount :: int
  image :: "string option"

text \<open>
  \<^verbatim>\<open>GachaManagement.add_gacha_item_modal\<close>.  The fields of the form are the arguments;
  the amount and the image are optional.  \<open>py_int\<close> stands for Python's \<^verbatim>\<open>int(str)\<close>, with
  \<open>None\<close> for \<^verbatim>\<open>ValueError\<close>.
\<close>

definition add_gacha_item_modal ::
  "(string \<Rightarrow> int option) \<Rightarrow> GachaItem list \<Rightarrow> int \<Rightarrow> string \<Rightarrow> string \<Rightarrow> string option
     \<Rightarrow> string option \<Rightarrow> (error + unit) \<times> GachaItem list" where
  "add_gacha_item_modal py_int items g item_name item_desc item_amount item_image =
     (let str_amount = (case item_amount of None \<Rightarrow> ''-1'' | Some s \<Rightarrow> s)
      in if length (filter (\<lambda>i. item_guild_id i = g \<and> name i = item_name) items) > 0
         then (Inl (BadArgument ''An item with that name already exists.''), items)
         else
           (case py_int str_amount of
              None \<Rightarrow> (Inl (BadArgument ''Amount must be a positive number.''), items)
            | Some n \<Rightarrow>
                if n < -1 then (Inl (BadArgument ''Amount must be a positive number.''), items)
                else (Inr (),
                      items @ [\<lparr>item_guild_id = g, name = item_name, item_description = item_desc,
                                amount = n, image = item_image\<rparr>])))"

section \<open>Facts about the pattern matcher\<close>

lemma of_char_eq_iff_nat: "(c = d) = ((of_char c :: nat) = of_char d)"
  by (metis char_of_char)

lemma lower_char_percent [simp]: "lower_char c = percent \<longleftrightarrow> c = percent"
  unfolding lower_char_def percent_def Let_def of_char_eq_iff_nat [of _ "CHR ''%''"]
  by auto

lemma lower_char_underscore [simp]: "lower_char c = underscore \<longleftrightarrow> c = underscore"
  unfolding lower_char_def underscore_def Let_def of_char_eq_iff_nat [of _ "CHR ''_''"]
  by auto

lemma lower_char_backslash [simp]: "lower_char c = backslash \<longleftrightarrow> c = backslash"
  unfolding lower_char_def backslash_def Let_def of_char_eq_iff_nat [of _ "CHR 0x5C"]
  by auto

lemma lower_char_backslash_sym [simp]: "backslash = lower_char c \<longleftrightarrow> c = backslash"
  by (metis lower_char_backslash)

lemma wild_distinct:
  "percent \<noteq> backslash" "underscore \<noteq> backslash" "percent \<noteq> underscore"
  "backslash \<noteq> percent" "backslash \<noteq> underscore" "underscore \<noteq> percent"
  by (simp_all add: percent_def underscore_def backslash_def)

text \<open>The three kinds of pattern characters, one equation each.\<close>

lemma like_match_escape:
  "like_match (backslash # q # qs) t =
     (case t of [] \<Rightarrow> False | c # cs \<Rightarrow> q = c \<and> like_match qs cs)"
  by simp

lemma like_match_percent:
  "like_match (percent # ps) t =
     (like_match ps t \<or> (case t of [] \<Rightarrow> False | c # cs \<Rightarrow> like_match (percent # ps) cs))"
  using wild_distinct by simp

lemma like_match_literal:
  "p \<noteq> backslash \<Longrightarrow> p \<noteq> percent \<Longrightarrow> p \<noteq> underscore \<Longrightarrow>
   like_match (p # ps) t = (case t of [] \<Rightarrow> False | c # cs \<Rightarrow> p = c \<and> like_match ps cs)"
  by simp

lemma like_match_percent_all: "like_match [percent] t"
  by (induction t) (simp_all add: like_match_percent del: like_match.simps(2))

text \<open>A leading percent sign lets the rest of the pattern start anywhere in the text.\<close>

lemma like_match_percent_iff:
  "like_match (percent # ps) t \<longleftrightarrow> (\<exists>u r. t = u @ r \<and> like_match ps r)"
proof (induction t)
  case Nil
  then show ?case by (simp add: like_match_percent del: like_match.simps(2))
next
  case (Cons c cs)
  have "like_match (percent # ps) (c # cs) \<longleftrightarrow>
          like_match ps (c # cs) \<or> like_match (percent # ps) cs"
    by (simp add: like_match_percent del: like_match.simps(2))
  also have "\<dots> \<longleftrightarrow> like_match ps (c # cs) \<or> (\<exists>u r. cs = u @ r \<and> like_match ps r)"
    using Cons.IH by simp
  also have "\<dots> \<longleftrightarrow> (\<exists>u r. c # cs = u @ r \<and> like_match ps r)"
    by (auto simp: append_eq_Cons_conv Cons_eq_append_conv simp del: like_match.simps(2))
  finally show ?case .
qed

text \<open>
  An escaped string without a backslash of its own is matched character by character:
  the pattern consumes exactly that string.
\<close>

lemma like_match_generate_regexp:
  "backslash \<notin> set s \<Longrightarrow>
   like_match (generate_regexp s @ ps) t \<longleftrightarrow> (\<exists>r. t = s @ r \<and> like_match ps r)"
proof (induction s arbitrary: t)
  case Nil
  then show ?case by simp
next
  case (Cons c cs)
  then have nb: "c \<noteq> backslash"
    and IH: "\<And>t. like_match (generate_regexp cs @ ps) t \<longleftrightarrow> (\<exists>r. t = cs @ r \<and> like_match ps r)"
    by auto
  show ?case
  proof (cases "c = percent \<or> c = underscore")
    case True
    then show ?thesis using IH
      by (cases t) (auto simp: like_match_escape simp del: like_match.simps(2))
  next
    case False
    then show ?thesis using nb IH
      by (cases t) (auto simp: like_match_literal simp del: like_match.simps(2))
  qed
qed

lemma LOWER_generate_regexp: "LOWER (generate_regexp s) = generate_regexp (LOWER s)"
  by (induction s) (simp_all add: LOWER_def wild_distinct)

lemma backslash_LOWER: "backslash \<in> set (LOWER s) \<longleftrightarrow> backslash \<in> set s"
  by (induction s) (auto simp: LOWER_def)

text \<open>
  The substring predicate of the discovery query, for a trigger or alias that holds no
  backslash: it is containment of the folded phrase in the folded text.
\<close>

lemma ILIKE_contains:
  assumes "backslash \<notin> set s"
  shows "ILIKE t (percent # generate_regexp s @ [percent]) \<longleftrightarrow>
           (\<exists>u v. LOWER t = u @ LOWER s @ v)"
proof -
  have "LOWER (percent # generate_regexp s @ [percent]) =
          percent # generate_regexp (LOWER s) @ [percent]"
    using LOWER_generate_regexp [of s] by (simp add: LOWER_def)
  moreover have "backslash \<notin> set (LOWER s)"
    using assms backslash_LOWER by simp
  ultimately show ?thesis
    unfolding ILIKE_def
    by (simp add: like_match_percent_iff like_match_generate_regexp like_match_percent_all
          del: like_match.simps(2)) blast
qed

lemma find_Some_D: "List.find P xs = Some x \<Longrightarrow> x \<in> set xs \<and> P x"
  by (auto simp: find_Some_iff)

section \<open>The text normaliser\<close>

text \<open>
  \<open>escape_ilike\<close> puts a backslash before every percent sign and every underscore and
  copies every other character; the SQL expression of \<open>generate_regexp\<close> computes the same
  string.  For a trigger that holds no backslash, the substring search of the discovery
  query is literal containment of the trigger in the text, both folded to one case.
\<close>

lemma escape_ilike_concat:
  "escape_ilike s =
     concat (map (\<lambda>c. if c = percent \<or> c = underscore then [backslash, c] else [c]) s)"
  by (induction s) simp_all

lemma generate_regexp_escape_ilike: "generate_regexp s = escape_ilike s"
  by (induction s) simp_all

lemma escape_literal_search:
  "backslash \<notin> set s \<Longrightarrow>
     ILIKE t ([percent] @ generate_regexp s @ [percent]) \<longleftrightarrow>
       (\<exists>u v. LOWER t = u @ LOWER s @ v)"
  using ILIKE_contains [of s t] by simp

text \<open>
  C6 at an input where the code leaves the claim.  The trigger is a backslash and a percent
  sign.  The escape function does what the claim says of it: the percent sign gets its
  backslash and the backslash of the trigger is copied.  The pattern then reads the two
  backslashes as one literal backslash and the percent sign as a wildcard: the trigger
  matches a text that holds no percent sign, and a percent sign of the trigger stands for
  an arbitrary run of characters.
\<close>

theorem backslash_percent_trigger:
  "escape_ilike [backslash, percent] = [backslash, backslash, percent]
   \<and> generate_regexp [backslash, percent] = [backslash, backslash, percent]
   \<and> ILIKE [backslash, CHR ''x''] ([percent] @ generate_regexp [backslash, percent] @ [percent])
   \<and> ILIKE [backslash, CHR ''x'', CHR ''y'', CHR ''z'']
         ([percent] @ generate_regexp [backslash, percent] @ [percent])
   \<and> percent \<notin> set [backslash, CHR ''x'']"
  by code_simp

section \<open>The clue registry\<close>

text \<open>
  C1 at an input where the code leaves the claim.  The trigger is the three characters
  \<open>a\<close>, backslash, \<open>b\<close>; the escape leaves its backslash alone, so the pattern reads the
  \<open>b\<close> as escaped.  The message \<open>ab\<close>, which does not contain the trigger, finds the clue,
  and the message that is the trigger itself finds nothing.
\<close>

theorem find_backslash_trigger:
  "TruthBullet_find
     [\<lparr>bullet_id = 1, channel_id = 7, trigger = [CHR ''a'', backslash, CHR ''b''], aliases = [],
       description = ''d'', hidden = False, found = False, finder = None\<rparr>] 7 ''ab''
   = Some \<lparr>bullet_id = 1, channel_id = 7, trigger = [CHR ''a'', backslash, CHR ''b''],
       aliases = [], description = ''d'', hidden = False, found = False, finder = None\<rparr>
   \<and> TruthBullet_find
     [\<lparr>bullet_id = 1, channel_id = 7, trigger = [CHR ''a'', backslash, CHR ''b''], aliases = [],
       description = ''d'', hidden = False, found = False, finder = None\<rparr>] 7
       [CHR ''a'', backslash, CHR ''b'']
   = None"
  by code_simp

text \<open>
  C7.  \<open>validate\<close> answers true exactly when \<open>find_exact\<close> answers a clue; \<open>find_exact\<close>
  answers a clue exactly when some clue of the channel, found or not, has a trigger or an
  alias equal to the text after folding both to upper case; and the clue it answers is such
  a clue.
\<close>

theorem validate_iff_find_exact:
  "(validate tbl ch t \<longleftrightarrow> find_exact tbl ch t \<noteq> None) \<and>
   (find_exact tbl ch t \<noteq> None \<longleftrightarrow>
      (\<exists>b \<in> set tbl. channel_id b = ch \<and>
         (UPPER t = UPPER (trigger b) \<or> (\<exists>a \<in> set (aliases b). UPPER t = UPPER a)))) \<and>
   (\<forall>b. find_exact tbl ch t = Some b \<longrightarrow>
      b \<in> set tbl \<and> channel_id b = ch \<and>
      (UPPER t = UPPER (trigger b) \<or> (\<exists>a \<in> set (aliases b). UPPER t = UPPER a)))"
proof -
  have same: "VALIDATE_TRUTH_BULLET_STR ch t = FIND_TRUTH_BULLET_EXACT_STR ch t"
    by (rule ext) (simp add: VALIDATE_TRUTH_BULLET_STR_def FIND_TRUTH_BULLET_EXACT_STR_def)
  have 1: "validate tbl ch t \<longleftrightarrow> find_exact tbl ch t \<noteq> None"
    by (simp add: validate_def find_exact_def same)
  have 2: "find_exact tbl ch t \<noteq> None \<longleftrightarrow>
      (\<exists>b \<in> set tbl. channel_id b = ch \<and>
         (UPPER t = UPPER (trigger b) \<or> (\<exists>a \<in> set (aliases b). UPPER t = UPPER a)))"
    by (auto simp: find_exact_def query_first_def find_None_iff
          FIND_TRUTH_BULLET_EXACT_STR_def list_ex_iff)
  have 3: "\<forall>b. find_exact tbl ch t = Some b \<longrightarrow>
      b \<in> set tbl \<and> channel_id b = ch \<and>
      (UPPER t = UPPER (trigger b) \<or> (\<exists>a \<in> set (aliases b). UPPER t = UPPER a))"
    by (auto simp: find_exact_def query_first_def FIND_TRUTH_BULLET_EXACT_STR_def list_ex_iff
          dest!: find_Some_D)
  from 1 2 3 show ?thesis by blast
qed

theorem validate_iff_find_exact_witness:
  "validate
     [\<lparr>bullet_id = 1, channel_id = 7, trigger = ''Knife'', aliases = [''blade''],
       description = ''A knife.'', hidden = False, found = True, finder = Some 42\<rparr>] 7 ''BLADE''
   \<and> find_exact
     [\<lparr>bullet_id = 1, channel_id = 7, trigger = ''Knife'', aliases = [''blade''],
       description = ''A knife.'', hidden = False, found = True, finder = Some 42\<rparr>] 7 ''BLADE''
     = Some \<lparr>bullet_id = 1, channel_id = 7, trigger = ''Knife'', aliases = [''blade''],
       description = ''A knife.'', hidden = False, found = True, finder = Some 42\<rparr>"
proof -
  have "find_exact
     [\<lparr>bullet_id = 1, channel_id = 7, trigger = ''Knife'', aliases = [''blade''],
       description = ''A knife.'', hidden = False, found = True, finder = Some 42\<rparr>] 7 ''BLADE''
     = Some \<lparr>bullet_id = 1, channel_id = 7, trigger = ''Knife'', aliases = [''blade''],
       description = ''A knife.'', hidden = False, found = True, finder = Some 42\<rparr>"
    by code_simp
  then show ?thesis
    using validate_iff_find_exact
      [of "[\<lparr>bullet_id = 1, channel_id = 7, trigger = ''Knife'', aliases = [''blade''],
       description = ''A knife.'', hidden = False, found = True, finder = Some 42\<rparr>]" 7 "''BLADE''"]
    by simp
qed

text \<open>
  What \<open>TruthBullet_find\<close> answers is a row of the table, in the channel asked for and not
  yet found, whatever the triggers are.
\<close>

lemma find_unfound:
  "TruthBullet_find tbl ch t = Some c \<Longrightarrow> c \<in> set tbl \<and> channel_id c = ch \<and> \<not> found c"
  by (auto simp: TruthBullet_find_def query_first_def FIND_TRUTH_BULLET_STR_def dest!: find_Some_D)

text \<open>
  When no trigger and no alias of the table holds a backslash, the discovery lookup is the
  literal, case-insensitive substring search: it answers an unfound clue of the channel
  whose trigger or alias occurs in the text, and nothing exactly when there is none.
\<close>

lemma TruthBullet_find_literal:
  assumes "\<forall>b \<in> set tbl. backslash \<notin> set (trigger b) \<and> (\<forall>a \<in> set (aliases b). backslash \<notin> set a)"
  shows "(TruthBullet_find tbl ch t = Some c \<longrightarrow>
            c \<in> set tbl \<and> channel_id c = ch \<and> \<not> found c \<and>
            ((\<exists>u v. LOWER t = u @ LOWER (trigger c) @ v) \<or>
             (\<exists>a \<in> set (aliases c). \<exists>u v. LOWER t = u @ LOWER a @ v)))"
    and "TruthBullet_find tbl ch t = None \<longleftrightarrow>
           \<not> (\<exists>b \<in> set tbl. channel_id b = ch \<and> \<not> found b \<and>
                ((\<exists>u v. LOWER t = u @ LOWER (trigger b) @ v) \<or>
                 (\<exists>a \<in> set (aliases b). \<exists>u v. LOWER t = u @ LOWER a @ v)))"
proof -
  have wh: "\<And>b. b \<in> set tbl \<Longrightarrow>
      FIND_TRUTH_BULLET_STR ch t b \<longleftrightarrow>
        channel_id b = ch \<and> \<not> found b \<and>
        ((\<exists>u v. LOWER t = u @ LOWER (trigger b) @ v) \<or>
         (\<exists>a \<in> set (aliases b). \<exists>u v. LOWER t = u @ LOWER a @ v))"
    using assms by (simp add: FIND_TRUTH_BULLET_STR_def list_ex_iff ILIKE_contains)
  show "TruthBullet_find tbl ch t = Some c \<longrightarrow>
            c \<in> set tbl \<and> channel_id c = ch \<and> \<not> found c \<and>
            ((\<exists>u v. LOWER t = u @ LOWER (trigger c) @ v) \<or>
             (\<exists>a \<in> set (aliases c). \<exists>u v. LOWER t = u @ LOWER a @ v))"
  proof
    assume "TruthBullet_find tbl ch t = Some c"
    then have "c \<in> set tbl" "FIND_TRUTH_BULLET_STR ch t c"
      by (auto simp: TruthBullet_find_def query_first_def dest!: find_Some_D)
    then show "c \<in> set tbl \<and> channel_id c = ch \<and> \<not> found c \<and>
            ((\<exists>u v. LOWER t = u @ LOWER (trigger c) @ v) \<or>
             (\<exists>a \<in> set (aliases c). \<exists>u v. LOWER t = u @ LOWER a @ v))"
      using wh by blast
  qed
  have "TruthBullet_find tbl ch t = None \<longleftrightarrow> \<not> (\<exists>b \<in> set tbl. FIND_TRUTH_BULLET_STR ch t b)"
    by (auto simp: TruthBullet_find_def query_first_def find_None_iff)
  then show "TruthBullet_find tbl ch t = None \<longleftrightarrow>
           \<not> (\<exists>b \<in> set tbl. channel_id b = ch \<and> \<not> found b \<and>
                ((\<exists>u v. LOWER t = u @ LOWER (trigger b) @ v) \<or>
                 (\<exists>a \<in> set (aliases b). \<exists>u v. LOWER t = u @ LOWER a @ v)))"
    using wh by blast
qed

subsection \<open>Discovery\<close>

text \<open>What \<open>save\<close> stores: the aliases sorted and without duplicates, the other fields as they are.\<close>

lemma model_dump_fields [simp]:
  "bullet_id (model_dump c) = bullet_id c"
  "channel_id (model_dump c) = channel_id c"
  "found (model_dump c) = found c"
  "finder (model_dump c) = finder c"
  by (simp_all add: model_dump_def)

lemma save_sorts_aliases:
  "TruthBullet_save [\<lparr>bullet_id = 1, channel_id = 7, trigger = ''knife'', aliases = [''dagger'', ''blade''],
         description = ''A knife.'', hidden = False, found = False, finder = None\<rparr>] \<lparr>bullet_id = 1, channel_id = 7, trigger = ''knife'', aliases = [''dagger'', ''blade''],
         description = ''A knife.'', hidden = False, found = False, finder = None\<rparr>
   = [\<lparr>bullet_id = 1, channel_id = 7, trigger = ''knife'', aliases = [''dagger'', ''blade''],
         description = ''A knife.'', hidden = False, found = False, finder = None\<rparr>\<lparr>aliases := [''blade'', ''dagger'']\<rparr>]"
  by code_simp

lemma save_ids: "map bullet_id (TruthBullet_save tbl c) = map bullet_id tbl"
  by (induction tbl) (auto simp: TruthBullet_save_def)

lemma commit_ids: "map bullet_id (fst (commit_discovery tbl c u)) = map bullet_id tbl"
  by (simp add: commit_discovery_def Let_def save_ids)

lemma commit_inv:
  "list_all finder_iff_found tbl \<Longrightarrow> list_all finder_iff_found (fst (commit_discovery tbl c u))"
  by (auto simp: commit_discovery_def Let_def TruthBullet_save_def list_all_iff
        finder_iff_found_def)

lemma commit_found:
  "i < length tbl \<Longrightarrow> found (tbl ! i) \<Longrightarrow> found (fst (commit_discovery tbl c u) ! i)"
  by (simp add: commit_discovery_def Let_def TruthBullet_save_def)

lemma commit_discovery_sets:
  "r \<in> set (fst (commit_discovery tbl c u)) \<Longrightarrow> bullet_id r = bullet_id c \<Longrightarrow>
     found r \<and> finder r = Some u"
  by (auto simp: commit_discovery_def Let_def TruthBullet_save_def split: if_splits)

lemma discover_keeps_found:
  assumes "distinct (map bullet_id tbl)" "i < length tbl" "found (tbl ! i)"
  shows "discover tbl ch u t ! i = tbl ! i"
proof (cases "TruthBullet_find tbl ch t")
  case None
  then show ?thesis by (simp add: discover_def)
next
  case (Some c)
  then have c: "c \<in> set tbl" "\<not> found c" using find_unfound by blast+
  have "tbl ! i \<in> set tbl" using assms(2) by simp
  moreover have "tbl ! i \<noteq> c" using c(2) assms(3) by auto
  ultimately have "bullet_id (tbl ! i) \<noteq> bullet_id c"
    using assms(1) c(1) by (meson distinct_map inj_onD)
  then show ?thesis
    using Some assms(2) by (simp add: discover_def commit_discovery_def Let_def TruthBullet_save_def)
qed

text \<open>
  Every step of the handlers keeps the identifiers, the invariant and the found clues; a
  lookup changes nothing and a commit only ever writes \<open>found = True\<close> with a finder.
\<close>

lemma handlers_table:
  assumes "handlers (tbl0, pending0) (tbl, pending)"
  shows "map bullet_id tbl = map bullet_id tbl0
       \<and> (list_all finder_iff_found tbl0 \<longrightarrow> list_all finder_iff_found tbl)
       \<and> (\<forall>i < length tbl0. found (tbl0 ! i) \<longrightarrow> found (tbl ! i))"
  using assms
proof (induction "(tbl, pending)" arbitrary: tbl pending rule: handlers.induct)
  case handlers_init
  then show ?case by simp
next
  case (handlers_lookup tbl pending channel content clue user)
  then show ?case by simp
next
  case (handlers_commit tbl pending clue user)
  have len: "length tbl = length tbl0"
    using handlers_commit.hyps(2) by (metis length_map)
  show ?case
    using handlers_commit.hyps(2) len
    by (auto simp: commit_ids commit_inv commit_found)
qed

text \<open>
  C5, as amended.  From a table with distinct identifiers, in every state that message
  handlers reach with their lookups and commits interleaved in any order: a table that had
  \<open>finder\<close> non-null exactly for its found clues still has; a clue that was found is still
  found; a handler that then runs its lookup and its commit with nothing in between leaves
  every found clue as it is, finder included; and a discovery-commit leaves the clue it
  names found, with the given finder.
\<close>

theorem discovery_keeps_finder:
  assumes "distinct (map bullet_id tbl0)" "list_all finder_iff_found tbl0"
    and "handlers (tbl0, pending0) (tbl, pending)"
  shows "list_all finder_iff_found tbl \<and> length tbl = length tbl0
         \<and> (\<forall>i < length tbl0. found (tbl0 ! i) \<longrightarrow> found (tbl ! i))
         \<and> (\<forall>channel user content. \<forall>i < length tbl.
               found (tbl ! i) \<longrightarrow> discover tbl channel user content ! i = tbl ! i)
         \<and> (\<forall>c u. \<forall>r \<in> set (fst (commit_discovery tbl c u)).
               bullet_id r = bullet_id c \<longrightarrow> found r \<and> finder r = Some u)"
proof -
  note t = handlers_table [OF assms(3)]
  have ids: "map bullet_id tbl = map bullet_id tbl0" using t by simp
  then have d: "distinct (map bullet_id tbl)" using assms(1) by simp
  have len: "length tbl = length tbl0" using ids by (metis length_map)
  have 1: "list_all finder_iff_found tbl" using t assms(2) by simp
  have 2: "\<forall>i < length tbl0. found (tbl0 ! i) \<longrightarrow> found (tbl ! i)" using t by simp
  have 3: "\<forall>channel user content. \<forall>i < length tbl.
               found (tbl ! i) \<longrightarrow> discover tbl channel user content ! i = tbl ! i"
    using discover_keeps_found [OF d] by blast
  have 4: "\<forall>c u. \<forall>r \<in> set (fst (commit_discovery tbl c u)).
               bullet_id r = bullet_id c \<longrightarrow> found r \<and> finder r = Some u"
    using commit_discovery_sets by blast
  from 1 2 3 4 len show ?thesis by blast
qed


theorem discovery_keeps_finder_witness:
  "list_all finder_iff_found
     (fst (commit_discovery (fst (commit_discovery
      [\<lparr>bullet_id = 1, channel_id = 7, trigger = ''knife'', aliases = [''dagger'', ''blade''],
         description = ''A knife.'', hidden = False, found = False, finder = None\<rparr>,
       \<lparr>bullet_id = 2, channel_id = 7, trigger = ''rope'', aliases = [],
         description = ''A rope.'', hidden = False, found = True, finder = Some 5\<rparr>]
      \<lparr>bullet_id = 1, channel_id = 7, trigger = ''knife'', aliases = [''dagger'', ''blade''],
         description = ''A knife.'', hidden = False, found = False, finder = None\<rparr> 10))
      \<lparr>bullet_id = 1, channel_id = 7, trigger = ''knife'', aliases = [''dagger'', ''blade''],
         description = ''A knife.'', hidden = False, found = False, finder = None\<rparr> 20))
   \<and> map found
     (fst (commit_discovery (fst (commit_discovery
      [\<lparr>bullet_id = 1, channel_id = 7, trigger = ''knife'', aliases = [''dagger'', ''blade''],
         description = ''A knife.'', hidden = False, found = False, finder = None\<rparr>,
       \<lparr>bullet_id = 2, channel_id = 7, trigger = ''rope'', aliases = [],
         description = ''A rope.'', hidden = False, found = True, finder = Some 5\<rparr>]
      \<lparr>bullet_id = 1, channel_id = 7, trigger = ''knife'', aliases = [''dagger'', ''blade''],
         description = ''A knife.'', hidden = False, found = False, finder = None\<rparr> 10))
      \<lparr>bullet_id = 1, channel_id = 7, trigger = ''knife'', aliases = [''dagger'', ''blade''],
         description = ''A knife.'', hidden = False, found = False, finder = None\<rparr> 20)) = [True, True]
   \<and> discover
     (fst (commit_discovery (fst (commit_discovery
      [\<lparr>bullet_id = 1, channel_id = 7, trigger = ''knife'', aliases = [''dagger'', ''blade''],
         description = ''A knife.'', hidden = False, found = False, finder = None\<rparr>,
       \<lparr>bullet_id = 2, channel_id = 7, trigger = ''rope'', aliases = [],
         description = ''A rope.'', hidden = False, found = True, finder = Some 5\<rparr>]
      \<lparr>bullet_id = 1, channel_id = 7, trigger = ''knife'', aliases = [''dagger'', ''blade''],
         description = ''A knife.'', hidden = False, found = False, finder = None\<rparr> 10))
      \<lparr>bullet_id = 1, channel_id = 7, trigger = ''knife'', aliases = [''dagger'', ''blade''],
         description = ''A knife.'', hidden = False, found = False, finder = None\<rparr> 20)) 7 30 ''the knife again'' ! 0
     = (fst (commit_discovery (fst (commit_discovery
      [\<lparr>bullet_id = 1, channel_id = 7, trigger = ''knife'', aliases = [''dagger'', ''blade''],
         description = ''A knife.'', hidden = False, found = False, finder = None\<rparr>,
       \<lparr>bullet_id = 2, channel_id = 7, trigger = ''rope'', aliases = [],
         description = ''A rope.'', hidden = False, found = True, finder = Some 5\<rparr>]
      \<lparr>bullet_id = 1, channel_id = 7, trigger = ''knife'', aliases = [''dagger'', ''blade''],
         description = ''A knife.'', hidden = False, found = False, finder = None\<rparr> 10))
      \<lparr>bullet_id = 1, channel_id = 7, trigger = ''knife'', aliases = [''dagger'', ''blade''],
         description = ''A knife.'', hidden = False, found = False, finder = None\<rparr> 20)) ! 0
   \<and> discover
     (fst (commit_discovery (fst (commit_discovery
      [\<lparr>bullet_id = 1, channel_id = 7, trigger = ''knife'', aliases = [''dagger'', ''blade''],
         description = ''A knife.'', hidden = False, found = False, finder = None\<rparr>,
       \<lparr>bullet_id = 2, channel_id = 7, trigger = ''rope'', aliases = [],
         description = ''A rope.'', hidden = False, found = True, finder = Some 5\<rparr>]
      \<lparr>bullet_id = 1, channel_id = 7, trigger = ''knife'', aliases = [''dagger'', ''blade''],
         description = ''A knife.'', hidden = False, found = False, finder = None\<rparr> 10))
      \<lparr>bullet_id = 1, channel_id = 7, trigger = ''knife'', aliases = [''dagger'', ''blade''],
         description = ''A knife.'', hidden = False, found = False, finder = None\<rparr> 20)) 7 30 ''the knife again'' ! 1
     = \<lparr>bullet_id = 2, channel_id = 7, trigger = ''rope'', aliases = [],
         description = ''A rope.'', hidden = False, found = True, finder = Some 5\<rparr>"
proof -
  let ?c0 = "\<lparr>bullet_id = 1, channel_id = 7, trigger = ''knife'', aliases = [''dagger'', ''blade''],
         description = ''A knife.'', hidden = False, found = False, finder = None\<rparr>"
  let ?t0 = "[\<lparr>bullet_id = 1, channel_id = 7, trigger = ''knife'', aliases = [''dagger'', ''blade''],
         description = ''A knife.'', hidden = False, found = False, finder = None\<rparr>,
       \<lparr>bullet_id = 2, channel_id = 7, trigger = ''rope'', aliases = [],
         description = ''A rope.'', hidden = False, found = True, finder = Some 5\<rparr>]"
  let ?t1 = "fst (commit_discovery ?t0 ?c0 10)"
  let ?t2 = "fst (commit_discovery ?t1 ?c0 20)"
  have f1: "TruthBullet_find ?t0 7 ''a Knife here'' = Some ?c0"
    by code_simp
  have f2: "TruthBullet_find ?t0 7 ''the blade'' = Some ?c0"
    by code_simp
  have h0: "handlers (?t0, []) (?t0, [])"
    by (rule handlers_init)
  have h1: "handlers (?t0, []) (?t0, [] @ [(?c0, 10)])"
    using h0 f1 by (rule handlers_lookup)
  have h2: "handlers (?t0, []) (?t0, ([] @ [(?c0, 10)]) @ [(?c0, 20)])"
    using h1 f2 by (rule handlers_lookup)
  have "handlers (?t0, []) (?t1, remove1 (?c0, 10) (([] @ [(?c0, 10)]) @ [(?c0, 20)]))"
    using h2 by (rule handlers_commit) simp
  then have h3: "handlers (?t0, []) (?t1, [(?c0, 20)])"
    by simp
  have h4: "handlers (?t0, []) (?t2, remove1 (?c0, 20) [(?c0, 20)])"
    using h3 by (rule handlers_commit) simp
  have d: "distinct (map bullet_id ?t0)"
    by simp
  have inv: "list_all finder_iff_found ?t0"
    by (simp add: finder_iff_found_def)
  have len: "length ?t2 = 2"
    by (simp add: commit_discovery_def TruthBullet_save_def Let_def)
  have fnd: "map found ?t2 = [True, True]"
    by (simp add: commit_discovery_def TruthBullet_save_def Let_def)
  have t21: "?t2 ! 1 = \<lparr>bullet_id = 2, channel_id = 7, trigger = ''rope'', aliases = [],
         description = ''A rope.'', hidden = False, found = True, finder = Some 5\<rparr>"
    by (simp add: commit_discovery_def TruthBullet_save_def Let_def)
  note r = discovery_keeps_finder [OF d inv h4]
  have k0: "discover ?t2 7 30 ''the knife again'' ! 0 = ?t2 ! 0"
    using r len fnd by (auto simp: commit_discovery_def TruthBullet_save_def Let_def)
  have k1: "discover ?t2 7 30 ''the knife again'' ! 1 = ?t2 ! 1"
    using r len fnd by (auto simp: commit_discovery_def TruthBullet_save_def Let_def)
  from r fnd k0 k1 t21 show ?thesis
    by simp
qed

text \<open>
  C5, as stated, fails.  Two messages look the same unfound clue up before either commits;
  the commit of the first records its finder and the commit of the second, which does not
  look at \<open>found\<close>, records the second finder over it.  And \<open>save\<close> writes the whole object:
  saving a copy read before the discovery turns \<open>found\<close> back to false.
\<close>

theorem commit_discovery_overwrites_counterexample:
  "TruthBullet_find [\<lparr>bullet_id = 1, channel_id = 7, trigger = ''knife'', aliases = [''dagger'', ''blade''],
         description = ''A knife.'', hidden = False, found = False, finder = None\<rparr>] 7 ''a Knife here''
     = Some \<lparr>bullet_id = 1, channel_id = 7, trigger = ''knife'', aliases = [''dagger'', ''blade''],
         description = ''A knife.'', hidden = False, found = False, finder = None\<rparr>
   \<and> TruthBullet_find [\<lparr>bullet_id = 1, channel_id = 7, trigger = ''knife'', aliases = [''dagger'', ''blade''],
         description = ''A knife.'', hidden = False, found = False, finder = None\<rparr>] 7 ''the blade''
     = Some \<lparr>bullet_id = 1, channel_id = 7, trigger = ''knife'', aliases = [''dagger'', ''blade''],
         description = ''A knife.'', hidden = False, found = False, finder = None\<rparr>
   \<and> map finder (fst (commit_discovery [\<lparr>bullet_id = 1, channel_id = 7, trigger = ''knife'', aliases = [''dagger'', ''blade''],
         description = ''A knife.'', hidden = False, found = False, finder = None\<rparr>]
      \<lparr>bullet_id = 1, channel_id = 7, trigger = ''knife'', aliases = [''dagger'', ''blade''],
         description = ''A knife.'', hidden = False, found = False, finder = None\<rparr> 10)) = [Some 10]
   \<and> map finder (fst (commit_discovery (fst (commit_discovery [\<lparr>bullet_id = 1, channel_id = 7, trigger = ''knife'', aliases = [''dagger'', ''blade''],
         description = ''A knife.'', hidden = False, found = False, finder = None\<rparr>]
      \<lparr>bullet_id = 1, channel_id = 7, trigger = ''knife'', aliases = [''dagger'', ''blade''],
         description = ''A knife.'', hidden = False, found = False, finder = None\<rparr> 10))
      \<lparr>bullet_id = 1, channel_id = 7, trigger = ''knife'', aliases = [''dagger'', ''blade''],
         description = ''A knife.'', hidden = False, found = False, finder = None\<rparr> 20)) = [Some 20]
   \<and> map found
     (TruthBullet_save
        [\<lparr>bullet_id = 1, channel_id = 7, trigger = ''knife'', aliases = [],
             description = ''d'', hidden = False, found = True, finder = Some 10\<rparr>]
        \<lparr>bullet_id = 1, channel_id = 7, trigger = ''knife'', aliases = [],
             description = ''new text'', hidden = False, found = False, finder = None\<rparr>)
   = [False]"
  by code_simp

section \<open>The configuration resolver\<close>

text \<open>
  C2 at an input where the code leaves the claim.  The root row of community \<open>1\<close> exists,
  its names are absent, and the names are requested.  The row of names is created in the
  database, with the defaults and the community's identifier, but the object that \<open>get\<close>
  and \<open>get_or_create\<close> answer is the one read before: its \<open>names\<close> field is \<open>None\<close>.
\<close>

theorem get_returns_unfilled:
  "GuildConfig_get d
     \<lparr>guildconfig = [\<lparr>guild_id = 1, player_role = None, names = None, bullets = None, gacha = None\<rparr>],
      names_table = [], bulletconfig = [], gachaconfig = []\<rparr> 1 [names_key]
   = (Inr \<lparr>guild_id = 1, player_role = None, names = None, bullets = None, gacha = None\<rparr>,
      \<lparr>guildconfig = [\<lparr>guild_id = 1, player_role = None, names = None, bullets = None, gacha = None\<rparr>],
       names_table = [(new_names d)\<lparr>names_guild_id := 1\<rparr>], bulletconfig = [], gachaconfig = []\<rparr>)
   \<and> fst (GuildConfig_get_or_create d
     \<lparr>guildconfig = [\<lparr>guild_id = 1, player_role = None, names = None, bullets = None, gacha = None\<rparr>],
      names_table = [], bulletconfig = [], gachaconfig = []\<rparr> 1 [names_key])
   = Inr \<lparr>guild_id = 1, player_role = None, names = None, bullets = None, gacha = None\<rparr>"
  by (simp add: GuildConfig_get_def GuildConfig_get_or_create_def find_unique_def
        fill_in_include_def update_create_def Let_def)

text \<open>The object answered is always the object read first, whatever was created.\<close>

lemma fill_in_include_self:
  "fill_in_include d dbs self inc = (Inr c, dbs') \<Longrightarrow> c = self"
  by (auto simp: fill_in_include_def Let_def split: if_splits prod.splits sum.splits)

lemma GuildConfig_get_unfilled:
  "GuildConfig_get d dbs g inc = (Inr c, dbs') \<Longrightarrow> find_unique dbs g inc = Some c"
  by (auto simp: GuildConfig_get_def split: option.splits dest: fill_in_include_self)

section \<open>The set of message-enabled guilds\<close>

lemma find_snoc:
  "List.find P (xs @ [x]) =
     (case List.find P xs of Some y \<Rightarrow> Some y | None \<Rightarrow> if P x then Some x else None)"
  by (induction xs) auto

lemma find_replace:
  "f s = j \<Longrightarrow>
   List.find (\<lambda>b. f b = k) (map (\<lambda>row. if f row = j then s else row) xs) =
     (if k = j then (if \<exists>row \<in> set xs. f row = j then Some s else None)
      else List.find (\<lambda>b. f b = k) xs)"
  by (induction xs) auto

lemma find_distinct:
  "distinct (map f xs) \<Longrightarrow> m \<in> set xs \<Longrightarrow> List.find (\<lambda>x. f x = f m) xs = Some m"
  by (induction xs) (auto simp: image_iff)

lemma fold_insert: "fold (\<lambda>m S. insert (f m) S) xs S0 = f ` set xs \<union> S0"
  by (induction xs arbitrary: S0) auto

lemma inv_mono:
  assumes "msg_enabled_inv \<lparr>db = dbs, msg_enabled_bullets_guilds = S\<rparr>"
    and "\<And>k b. k \<in> S \<Longrightarrow> List.find (\<lambda>b. bullets_guild_id b = k) (bulletconfig dbs) = Some b \<Longrightarrow>
           List.find (\<lambda>b. bullets_guild_id b = k) (bulletconfig dbs1) = Some b"
  shows "msg_enabled_inv \<lparr>db = dbs1, msg_enabled_bullets_guilds = S\<rparr>"
  using assms unfolding msg_enabled_inv_def
  by (fastforce split: option.splits)

lemma fetch_config_bullets_keep:
  assumes "fetch_config d dbs g [bullets_key] = (r, dbs1)"
    and "List.find (\<lambda>b. bullets_guild_id b = k) (bulletconfig dbs) = Some b"
  shows "List.find (\<lambda>b. bullets_guild_id b = k) (bulletconfig dbs1) = Some b"
  using assms
  by (auto simp: fetch_config_def GuildConfig_get_or_create_def fill_in_include_def
        create_guildconfig_def update_create_def find_unique_def Let_def find_snoc
        split: option.splits if_splits prod.splits sum.splits)

lemma fetch_config_bullets_row:
  assumes "fetch_config d dbs g [bullets_key] = (Inr c, dbs1)" and "bullets c = Some b"
  shows "List.find (\<lambda>b. bullets_guild_id b = g) (bulletconfig dbs1) = Some b"
  using assms
  by (auto simp: fetch_config_def GuildConfig_get_or_create_def fill_in_include_def
        create_guildconfig_def update_create_def find_unique_def Let_def find_snoc
        split: option.splits if_splits prod.splits sum.splits)


lemma inv_state: "msg_enabled_inv st \<Longrightarrow>
   msg_enabled_inv \<lparr>db = db st, msg_enabled_bullets_guilds = msg_enabled_bullets_guilds st\<rparr>"
  by (simp add: msg_enabled_inv_def)

lemma toggle_bullets_inv:
  assumes inv: "msg_enabled_inv st"
  shows "msg_enabled_inv (snd (toggle_bullets d st g toggle))"
proof -
  obtain r dbs1 where f: "fetch_config d (db st) g [bullets_key] = (r, dbs1)"
    by (cases "fetch_config d (db st) g [bullets_key]") auto
  let ?S = "msg_enabled_bullets_guilds st"
  have keep: "\<And>k b. List.find (\<lambda>b. bullets_guild_id b = k) (bulletconfig (db st)) = Some b \<Longrightarrow>
           List.find (\<lambda>b. bullets_guild_id b = k) (bulletconfig dbs1) = Some b"
    using fetch_config_bullets_keep [OF f] by blast
  have inv1: "msg_enabled_inv \<lparr>db = dbs1, msg_enabled_bullets_guilds = ?S\<rparr>"
    using inv_mono [OF inv_state [OF inv]] keep by blast
  have inv1': "msg_enabled_inv (st\<lparr>db := dbs1\<rparr>)"
    using inv1 by (simp add: msg_enabled_inv_def)
  show ?thesis
  proof (cases r)
    case (Inl e)
    then show ?thesis using f inv1' by (simp add: toggle_bullets_def)
  next
    case (Inr config)
    show ?thesis
    proof (cases "bullets config")
      case None
      then show ?thesis using f Inr inv1' by (simp add: toggle_bullets_def)
    next
      case (Some b)
      have row: "List.find (\<lambda>b. bullets_guild_id b = g) (bulletconfig dbs1) = Some b"
        using fetch_config_bullets_row f Inr Some by blast
      then have gb: "bullets_guild_id b = g" and bin: "b \<in> set (bulletconfig dbs1)"
        by (auto dest: find_Some_D)
      show ?thesis
      proof (cases "if \<not> bullets_enabled b \<and> toggle then enable_check config else Inr ()")
        case (Inl e)
        then show ?thesis using f \<open>r = Inr config\<close> Some inv1' by (simp add: toggle_bullets_def)
      next
        case (Inr u)
        let ?b = "b\<lparr>bullets_enabled := toggle\<rparr>"
        let ?S' = "if investigation_type ?b \<noteq> COMMAND_ONLY
                   then (if toggle then insert g ?S else ?S - {g}) else ?S"
        have res: "snd (toggle_bullets d st g toggle) =
                \<lparr>db = BulletConfig_save dbs1 ?b, msg_enabled_bullets_guilds = ?S'\<rparr>"
          using f \<open>r = Inr config\<close> Some Inr by (simp add: toggle_bullets_def Let_def)
        have look: "\<And>k. List.find (\<lambda>b. bullets_guild_id b = k)
                        (bulletconfig (BulletConfig_save dbs1 ?b)) =
                   (if k = g then Some ?b
                    else List.find (\<lambda>b. bullets_guild_id b = k) (bulletconfig dbs1))"
          using gb bin
            find_replace [where f = bullets_guild_id and s = ?b and j = g and xs = "bulletconfig dbs1"]
          by (auto simp: BulletConfig_save_def)
        have "msg_enabled_inv \<lparr>db = BulletConfig_save dbs1 ?b, msg_enabled_bullets_guilds = ?S'\<rparr>"
          unfolding msg_enabled_inv_def
        proof
          fix k assume "k \<in> msg_enabled_bullets_guilds
             \<lparr>db = BulletConfig_save dbs1 ?b, msg_enabled_bullets_guilds = ?S'\<rparr>"
          then have k: "k \<in> ?S'" by simp
          show "case List.find (\<lambda>b. bullets_guild_id b = k)
                  (bulletconfig (db \<lparr>db = BulletConfig_save dbs1 ?b, msg_enabled_bullets_guilds = ?S'\<rparr>)) of
                  None \<Rightarrow> False
                | Some b \<Rightarrow> bullets_enabled b \<and> investigation_type b \<noteq> COMMAND_ONLY"
          proof (cases "k = g")
            case True
            have "toggle \<and> investigation_type b \<noteq> COMMAND_ONLY"
            proof (cases "investigation_type b = COMMAND_ONLY")
              case True
              with k \<open>k = g\<close> have "g \<in> ?S" by simp
              with inv1 row have "investigation_type b \<noteq> COMMAND_ONLY"
                by (auto simp: msg_enabled_inv_def)
              with True show ?thesis by simp
            next
              case False
              with k \<open>k = g\<close> show ?thesis by (auto split: if_splits)
            qed
            then show ?thesis using True look by simp
          next
            case False
            with k have "k \<in> ?S" by (auto split: if_splits)
            with inv1 False look show ?thesis
              by (auto simp: msg_enabled_inv_def)
          qed
        qed
        then show ?thesis using res by simp
      qed
    qed
  qed
qed


lemma get_or_create_row:
  assumes "BulletConfig_get_or_create d dbs g = (b, dbs1)"
  shows "List.find (\<lambda>b. bullets_guild_id b = g) (bulletconfig dbs1) = Some b"
    and "\<And>k c. List.find (\<lambda>b. bullets_guild_id b = k) (bulletconfig dbs) = Some c \<Longrightarrow>
           List.find (\<lambda>b. bullets_guild_id b = k) (bulletconfig dbs1) = Some c"
  using assms
  by (auto simp: BulletConfig_get_or_create_def Let_def find_snoc split: option.splits)

lemma set_investigation_mode_inv:
  assumes inv: "msg_enabled_inv st"
  shows "msg_enabled_inv (snd (set_investigation_mode d st g mode))"
proof (cases "InvestigationType_of mode")
  case None
  then show ?thesis using inv by (simp add: set_investigation_mode_def)
next
  case (Some ty)
  obtain b dbs1 where c: "BulletConfig_get_or_create d (db st) g = (b, dbs1)"
    by (cases "BulletConfig_get_or_create d (db st) g") auto
  let ?S = "msg_enabled_bullets_guilds st"
  let ?b = "b\<lparr>investigation_type := ty\<rparr>"
  let ?S' = "if ty = COMMAND_ONLY then ?S - {g}
             else if bullets_enabled ?b then insert g ?S else ?S"
  have row: "List.find (\<lambda>b. bullets_guild_id b = g) (bulletconfig dbs1) = Some b"
    using get_or_create_row(1) [OF c] .
  then have gb: "bullets_guild_id b = g" and bin: "b \<in> set (bulletconfig dbs1)"
    by (auto dest: find_Some_D)
  have inv1: "msg_enabled_inv \<lparr>db = dbs1, msg_enabled_bullets_guilds = ?S\<rparr>"
    using inv_mono [OF inv_state [OF inv]] get_or_create_row(2) [OF c] by blast
  have res: "snd (set_investigation_mode d st g mode) =
          \<lparr>db = BulletConfig_save dbs1 ?b, msg_enabled_bullets_guilds = ?S'\<rparr>"
    using Some c by (simp add: set_investigation_mode_def Let_def)
  have look: "\<And>k. List.find (\<lambda>b. bullets_guild_id b = k)
                  (bulletconfig (BulletConfig_save dbs1 ?b)) =
             (if k = g then Some ?b
              else List.find (\<lambda>b. bullets_guild_id b = k) (bulletconfig dbs1))"
    using gb bin
      find_replace [where f = bullets_guild_id and s = ?b and j = g and xs = "bulletconfig dbs1"]
    by (auto simp: BulletConfig_save_def)
  have "msg_enabled_inv \<lparr>db = BulletConfig_save dbs1 ?b, msg_enabled_bullets_guilds = ?S'\<rparr>"
    unfolding msg_enabled_inv_def
  proof
    fix k assume "k \<in> msg_enabled_bullets_guilds
       \<lparr>db = BulletConfig_save dbs1 ?b, msg_enabled_bullets_guilds = ?S'\<rparr>"
    then have k: "k \<in> ?S'" by simp
    show "case List.find (\<lambda>b. bullets_guild_id b = k)
            (bulletconfig (db \<lparr>db = BulletConfig_save dbs1 ?b, msg_enabled_bullets_guilds = ?S'\<rparr>)) of
            None \<Rightarrow> False
          | Some b \<Rightarrow> bullets_enabled b \<and> investigation_type b \<noteq> COMMAND_ONLY"
    proof (cases "k = g")
      case True
      have ty: "ty \<noteq> COMMAND_ONLY" using k True by (auto split: if_splits)
      have "bullets_enabled b"
      proof (cases "bullets_enabled b")
        case True
        then show ?thesis .
      next
        case False
        with k \<open>k = g\<close> ty have "g \<in> ?S" by (auto split: if_splits)
        with inv1 row show ?thesis by (auto simp: msg_enabled_inv_def)
      qed
      then show ?thesis using True look ty by simp
    next
      case False
      with k have "k \<in> ?S" by (auto split: if_splits)
      with inv1 False look show ?thesis
        by (auto simp: msg_enabled_inv_def)
    qed
  qed
  then show ?thesis using res by simp
qed

lemma start_inv:
  assumes "distinct (map bullets_guild_id (bulletconfig dbs))"
  shows "msg_enabled_inv (start dbs)"
  unfolding msg_enabled_inv_def
proof
  fix k assume "k \<in> msg_enabled_bullets_guilds (start dbs)"
  then obtain m where m: "m \<in> set (bulletconfig dbs)" "bullets_enabled m"
      "investigation_type m \<noteq> COMMAND_ONLY" "bullets_guild_id m = k"
    by (auto simp: start_def find_many_enabled_def fold_insert)
  have "List.find (\<lambda>b. bullets_guild_id b = k) (bulletconfig dbs) = Some m"
    using find_distinct [OF assms m(1)] m(4) by simp
  then show "case List.find (\<lambda>b. bullets_guild_id b = k) (bulletconfig (db (start dbs))) of
            None \<Rightarrow> False
          | Some b \<Rightarrow> bullets_enabled b \<and> investigation_type b \<noteq> COMMAND_ONLY"
    using m by (simp add: start_def)
qed

text \<open>
  C10.  The invariant of \<open>msg_enabled_bullets_guilds\<close> (a member guild has its settings row,
  with the bullets enabled and a mode other than \<open>COMMAND_ONLY\<close>) is kept by the command
  that sets the investigation mode and by the command that toggles the bullets, whatever
  their outcome, and holds of the set that the start builds from a table with one row for
  each guild.
\<close>

theorem msg_enabled_inv_preserved:
  "(msg_enabled_inv st \<longrightarrow> msg_enabled_inv (snd (set_investigation_mode d st g mode)))
   \<and> (msg_enabled_inv st \<longrightarrow> msg_enabled_inv (snd (toggle_bullets d st g toggle)))
   \<and> (distinct (map bullets_guild_id (bulletconfig dbs)) \<longrightarrow> msg_enabled_inv (start dbs))"
  using set_investigation_mode_inv toggle_bullets_inv start_inv by blast


theorem msg_enabled_inv_preserved_witness:
  "msg_enabled_bullets_guilds (start 
      \<lparr>guildconfig = [\<lparr>guild_id = 1, player_role = Some 5, names = None, bullets = None, gacha = None\<rparr>],
       names_table = [],
       bulletconfig = [\<lparr>bullets_guild_id = 1, bullets_enabled = True, bullet_chan_id = Some 3,
         investigation_type = DEFAULT, best_bullet_finder_role = None\<rparr>],
       gachaconfig = []\<rparr>) = {1}
   \<and> msg_enabled_inv (start 
      \<lparr>guildconfig = [\<lparr>guild_id = 1, player_role = Some 5, names = None, bullets = None, gacha = None\<rparr>],
       names_table = [],
       bulletconfig = [\<lparr>bullets_guild_id = 1, bullets_enabled = True, bullet_chan_id = Some 3,
         investigation_type = DEFAULT, best_bullet_finder_role = None\<rparr>],
       gachaconfig = []\<rparr>)
   \<and> msg_enabled_inv (snd (set_investigation_mode 
      \<lparr>new_guildconfig = \<lparr>guild_id = 0, player_role = None, names = None, bullets = None, gacha = None\<rparr>,
       new_names = \<lparr>names_guild_id = 0, singular_bullet = ''Truth Bullet'',
         plural_bullet = ''Truth Bullets'', singular_truth_bullet_finder = ''Finder'',
         plural_truth_bullet_finder = ''Finders'', best_bullet_finder = ''Best Finder'',
         singular_currency_name = ''Coin'', plural_currency_name = ''Coins''\<rparr>,
       new_bullets = \<lparr>bullets_guild_id = 0, bullets_enabled = False, bullet_chan_id = None,
         investigation_type = DEFAULT, best_bullet_finder_role = None\<rparr>,
       new_gacha = \<lparr>gacha_guild_id = 0, currency_cost = 1\<rparr>\<rparr> (start 
      \<lparr>guildconfig = [\<lparr>guild_id = 1, player_role = Some 5, names = None, bullets = None, gacha = None\<rparr>],
       names_table = [],
       bulletconfig = [\<lparr>bullets_guild_id = 1, bullets_enabled = True, bullet_chan_id = Some 3,
         investigation_type = DEFAULT, best_bullet_finder_role = None\<rparr>],
       gachaconfig = []\<rparr>) 1 2))
   \<and> msg_enabled_bullets_guilds (snd (set_investigation_mode 
      \<lparr>new_guildconfig = \<lparr>guild_id = 0, player_role = None, names = None, bullets = None, gacha = None\<rparr>,
       new_names = \<lparr>names_guild_id = 0, singular_bullet = ''Truth Bullet'',
         plural_bullet = ''Truth Bullets'', singular_truth_bullet_finder = ''Finder'',
         plural_truth_bullet_finder = ''Finders'', best_bullet_finder = ''Best Finder'',
         singular_currency_name = ''Coin'', plural_currency_name = ''Coins''\<rparr>,
       new_bullets = \<lparr>bullets_guild_id = 0, bullets_enabled = False, bullet_chan_id = None,
         investigation_type = DEFAULT, best_bullet_finder_role = None\<rparr>,
       new_gacha = \<lparr>gacha_guild_id = 0, currency_cost = 1\<rparr>\<rparr> (start 
      \<lparr>guildconfig = [\<lparr>guild_id = 1, player_role = Some 5, names = None, bullets = None, gacha = None\<rparr>],
       names_table = [],
       bulletconfig = [\<lparr>bullets_guild_id = 1, bullets_enabled = True, bullet_chan_id = Some 3,
         investigation_type = DEFAULT, best_bullet_finder_role = None\<rparr>],
       gachaconfig = []\<rparr>) 1 2)) = {}
   \<and> msg_enabled_inv (snd (toggle_bullets 
      \<lparr>new_guildconfig = \<lparr>guild_id = 0, player_role = None, names = None, bullets = None, gacha = None\<rparr>,
       new_names = \<lparr>names_guild_id = 0, singular_bullet = ''Truth Bullet'',
         plural_bullet = ''Truth Bullets'', singular_truth_bullet_finder = ''Finder'',
         plural_truth_bullet_finder = ''Finders'', best_bullet_finder = ''Best Finder'',
         singular_currency_name = ''Coin'', plural_currency_name = ''Coins''\<rparr>,
       new_bullets = \<lparr>bullets_guild_id = 0, bullets_enabled = False, bullet_chan_id = None,
         investigation_type = DEFAULT, best_bullet_finder_role = None\<rparr>,
       new_gacha = \<lparr>gacha_guild_id = 0, currency_cost = 1\<rparr>\<rparr> (start 
      \<lparr>guildconfig = [\<lparr>guild_id = 1, player_role = Some 5, names = None, bullets = None, gacha = None\<rparr>],
       names_table = [],
       bulletconfig = [\<lparr>bullets_guild_id = 1, bullets_enabled = True, bullet_chan_id = Some 3,
         investigation_type = DEFAULT, best_bullet_finder_role = None\<rparr>],
       gachaconfig = []\<rparr>) 1 False))
   \<and> msg_enabled_bullets_guilds (snd (toggle_bullets 
      \<lparr>new_guildconfig = \<lparr>guild_id = 0, player_role = None, names = None, bullets = None, gacha = None\<rparr>,
       new_names = \<lparr>names_guild_id = 0, singular_bullet = ''Truth Bullet'',
         plural_bullet = ''Truth Bullets'', singular_truth_bullet_finder = ''Finder'',
         plural_truth_bullet_finder = ''Finders'', best_bullet_finder = ''Best Finder'',
         singular_currency_name = ''Coin'', plural_currency_name = ''Coins''\<rparr>,
       new_bullets = \<lparr>bullets_guild_id = 0, bullets_enabled = False, bullet_chan_id = None,
         investigation_type = DEFAULT, best_bullet_finder_role = None\<rparr>,
       new_gacha = \<lparr>gacha_guild_id = 0, currency_cost = 1\<rparr>\<rparr> (start 
      \<lparr>guildconfig = [\<lparr>guild_id = 1, player_role = Some 5, names = None, bullets = None, gacha = None\<rparr>],
       names_table = [],
       bulletconfig = [\<lparr>bullets_guild_id = 1, bullets_enabled = True, bullet_chan_id = Some 3,
         investigation_type = DEFAULT, best_bullet_finder_role = None\<rparr>],
       gachaconfig = []\<rparr>) 1 False)) = {}"
proof -
  let ?d = "
      \<lparr>new_guildconfig = \<lparr>guild_id = 0, player_role = None, names = None, bullets = None, gacha = None\<rparr>,
       new_names = \<lparr>names_guild_id = 0, singular_bullet = ''Truth Bullet'',
         plural_bullet = ''Truth Bullets'', singular_truth_bullet_finder = ''Finder'',
         plural_truth_bullet_finder = ''Finders'', best_bullet_finder = ''Best Finder'',
         singular_currency_name = ''Coin'', plural_currency_name = ''Coins''\<rparr>,
       new_bullets = \<lparr>bullets_guild_id = 0, bullets_enabled = False, bullet_chan_id = None,
         investigation_type = DEFAULT, best_bullet_finder_role = None\<rparr>,
       new_gacha = \<lparr>gacha_guild_id = 0, currency_cost = 1\<rparr>\<rparr>"
  let ?dbs = "
      \<lparr>guildconfig = [\<lparr>guild_id = 1, player_role = Some 5, names = None, bullets = None, gacha = None\<rparr>],
       names_table = [],
       bulletconfig = [\<lparr>bullets_guild_id = 1, bullets_enabled = True, bullet_chan_id = Some 3,
         investigation_type = DEFAULT, best_bullet_finder_role = None\<rparr>],
       gachaconfig = []\<rparr>"
  have s: "msg_enabled_bullets_guilds (start ?dbs) = {1}"
    by (simp add: start_def find_many_enabled_def)
  have m: "msg_enabled_bullets_guilds (snd (set_investigation_mode ?d (start ?dbs) 1 2)) = {}"
    by (simp add: set_investigation_mode_def InvestigationType_of_def BulletConfig_get_or_create_def
          start_def find_many_enabled_def Let_def)
  have t: "msg_enabled_bullets_guilds (snd (toggle_bullets ?d (start ?dbs) 1 False)) = {}"
    by (simp add: toggle_bullets_def fetch_config_def GuildConfig_get_or_create_def
          find_unique_def fill_in_include_def start_def find_many_enabled_def Let_def)
  have dist: "distinct (map bullets_guild_id (bulletconfig ?dbs))"
    by simp
  have i0: "msg_enabled_inv (start ?dbs)"
    using msg_enabled_inv_preserved [of "start ?dbs" ?d 1 2 False ?dbs] dist by blast
  have i1: "msg_enabled_inv (snd (set_investigation_mode ?d (start ?dbs) 1 2))"
    using msg_enabled_inv_preserved [of "start ?dbs" ?d 1 2 False ?dbs] i0 by blast
  have i2: "msg_enabled_inv (snd (toggle_bullets ?d (start ?dbs) 1 False))"
    using msg_enabled_inv_preserved [of "start ?dbs" ?d 1 2 False ?dbs] i0 by blast
  from s m t i0 i1 i2 show ?thesis by blast
qed

section \<open>The economy ledger\<close>

text \<open>
  C3 at an input where the code leaves the claim.  The member has the player role and no
  balance row, the names of the guild are configured, and ten units are removed.  The
  \<open>create\<close> branch of the upsert stores the amount itself: the new balance is \<open>10\<close>, where
  the claim says \<open>0 - 10\<close>.
\<close>

theorem gacha_remove_absent_row:
  "gacha_remove
     \<lparr>guild_id = 1, player_role = Some 5,
        names = Some \<lparr>names_guild_id = 1, singular_bullet = ''Truth Bullet'',
          plural_bullet = ''Truth Bullets'', singular_truth_bullet_finder = ''Finder'',
          plural_truth_bullet_finder = ''Finders'', best_bullet_finder = ''Best Finder'',
          singular_currency_name = ''Coin'', plural_currency_name = ''Coins''\<rparr>,
        bullets = None, gacha = None\<rparr>
     {5} Map.empty 1 2 10
   = (Inr 10, [user_guild_id 1 2 \<mapsto> 10])"
  by (simp add: gacha_remove_def player_check_def upsert_def)

text \<open>
  On a row that exists the removal is the decrement, with no floor; the command raises
  after the write when the names of the guild are missing on the configuration object.
\<close>

lemma gacha_remove_existing_row:
  assumes "player_role config = Some role" "role \<noteq> 0" "role \<in> user_roles"
    and "tbl (user_guild_id g u) = Some c"
  shows "gacha_remove config user_roles tbl g u n
           = ((if names config = None then Inl AttributeError else Inr (c - n)),
              tbl(user_guild_id g u \<mapsto> c - n))"
  using assms
  by (auto simp: gacha_remove_def player_check_def upsert_def split: option.splits)

text \<open>
  C4.  When the role checks of the commands pass and the member has no balance row, the
  grant creates the row with the amount, and the removal of the same amount from that table
  brings the stored balance to \<open>0\<close>.  Each command answers its new total (the amount, then
  \<open>0\<close>) when the names of the guild are on the configuration object, and raises after its
  write when they are not; the stored balances are the same in both cases.
\<close>

theorem grant_then_debit:
  assumes "player_role config = Some role" "role \<noteq> 0" "role \<in> user_roles"
    and "tbl (user_guild_id g u) = None"
  shows "gacha_give config user_roles tbl g u n
           = ((if names config = None then Inl AttributeError else Inr n),
              tbl(user_guild_id g u \<mapsto> n))
    \<and> gacha_remove config user_roles (tbl(user_guild_id g u \<mapsto> n)) g u n
           = ((if names config = None then Inl AttributeError else Inr 0),
              tbl(user_guild_id g u \<mapsto> 0))"
  using assms
  by (auto simp: gacha_give_def gacha_remove_def player_check_def upsert_def split: option.splits)

theorem grant_then_debit_witness:
  "gacha_give
     \<lparr>guild_id = 1, player_role = Some 5,
        names = Some \<lparr>names_guild_id = 1, singular_bullet = ''Truth Bullet'',
          plural_bullet = ''Truth Bullets'', singular_truth_bullet_finder = ''Finder'',
          plural_truth_bullet_finder = ''Finders'', best_bullet_finder = ''Best Finder'',
          singular_currency_name = ''Coin'', plural_currency_name = ''Coins''\<rparr>,
        bullets = None, gacha = None\<rparr>
     {5} Map.empty 1 2 10
   = (Inr 10, [user_guild_id 1 2 \<mapsto> 10])
   \<and> gacha_remove
     \<lparr>guild_id = 1, player_role = Some 5,
        names = Some \<lparr>names_guild_id = 1, singular_bullet = ''Truth Bullet'',
          plural_bullet = ''Truth Bullets'', singular_truth_bullet_finder = ''Finder'',
          plural_truth_bullet_finder = ''Finders'', best_bullet_finder = ''Best Finder'',
          singular_currency_name = ''Coin'', plural_currency_name = ''Coins''\<rparr>,
        bullets = None, gacha = None\<rparr>
     {5} [user_guild_id 1 2 \<mapsto> 10] 1 2 10
   = (Inr 0, [user_guild_id 1 2 \<mapsto> 0])
   \<and> gacha_give
     \<lparr>guild_id = 1, player_role = Some 5, names = None, bullets = None, gacha = None\<rparr>
     {5} Map.empty 1 2 10
   = (Inl AttributeError, [user_guild_id 1 2 \<mapsto> 10])
   \<and> gacha_remove
     \<lparr>guild_id = 1, player_role = Some 5, names = None, bullets = None, gacha = None\<rparr>
     {5} [user_guild_id 1 2 \<mapsto> 10] 1 2 10
   = (Inl AttributeError, [user_guild_id 1 2 \<mapsto> 0])"
  using grant_then_debit [of "\<lparr>guild_id = 1, player_role = Some 5,
        names = Some \<lparr>names_guild_id = 1, singular_bullet = ''Truth Bullet'',
          plural_bullet = ''Truth Bullets'', singular_truth_bullet_finder = ''Finder'',
          plural_truth_bullet_finder = ''Finders'', best_bullet_finder = ''Best Finder'',
          singular_currency_name = ''Coin'', plural_currency_name = ''Coins''\<rparr>,
        bullets = None, gacha = None\<rparr>"
      5 "{5}" Map.empty 1 2 10]
    grant_then_debit [of
      "\<lparr>guild_id = 1, player_role = Some 5, names = None, bullets = None, gacha = None\<rparr>"
      5 "{5}" Map.empty 1 2 10]
  by simp

text \<open>
  C8.  When the checks of the command pass: on a balance greater than \<open>0\<close> the update
  changes one row, the balance becomes \<open>0\<close> and the command succeeds; on a balance of
  \<open>0\<close> or less, or with no row, the update changes no row, the table stays as it is and
  the command fails with \<^verbatim>\<open>BadArgument\<close>.
\<close>

theorem reset_if_positive:
  assumes "player_role config = Some role" "role \<noteq> 0" "role \<in> user_roles"
  shows "(\<forall>c. tbl (user_guild_id g u) = Some c \<and> 0 < c \<longrightarrow>
            fst (update_many_positive tbl (user_guild_id g u)) = 1 \<and>
            gacha_reset_currency config user_roles tbl g u = (Inr (), tbl(user_guild_id g u \<mapsto> 0)))
       \<and> ((\<forall>c. tbl (user_guild_id g u) = Some c \<longrightarrow> c \<le> 0) \<longrightarrow>
            fst (update_many_positive tbl (user_guild_id g u)) = 0 \<and>
            gacha_reset_currency config user_roles tbl g u
              = (Inl (BadArgument ''The user has no currency to reset.''), tbl))"
  using assms
  by (auto simp: gacha_reset_currency_def player_check_def update_many_positive_def
        split: option.splits)

theorem reset_if_positive_witness:
  "gacha_reset_currency
     \<lparr>guild_id = 1, player_role = Some 5, names = None, bullets = None, gacha = None\<rparr> {5}
     [user_guild_id 1 2 \<mapsto> 5] 1 2
     = (Inr (), [user_guild_id 1 2 \<mapsto> 0])
   \<and> gacha_reset_currency
     \<lparr>guild_id = 1, player_role = Some 5, names = None, bullets = None, gacha = None\<rparr> {5}
     [user_guild_id 1 2 \<mapsto> 0] 1 2
     = (Inl (BadArgument ''The user has no currency to reset.''), [user_guild_id 1 2 \<mapsto> 0])
   \<and> gacha_reset_currency
     \<lparr>guild_id = 1, player_role = Some 5, names = None, bullets = None, gacha = None\<rparr> {5}
     Map.empty 1 2
     = (Inl (BadArgument ''The user has no currency to reset.''), Map.empty)"
  using reset_if_positive [of "\<lparr>guild_id = 1, player_role = Some 5, names = None, bullets = None, gacha = None\<rparr>"
      5 "{5}" "[user_guild_id 1 2 \<mapsto> 5]" 1 2]
    reset_if_positive [of "\<lparr>guild_id = 1, player_role = Some 5, names = None, bullets = None, gacha = None\<rparr>"
      5 "{5}" "[user_guild_id 1 2 \<mapsto> 0]" 1 2]
    reset_if_positive [of "\<lparr>guild_id = 1, player_role = Some 5, names = None, bullets = None, gacha = None\<rparr>"
      5 "{5}" "Map.empty" 1 2]
  by simp

section \<open>The item catalogue\<close>

text \<open>
  C9.  The creation of an item fails with the duplicate-name error exactly when the
  community already has an item of that name; every failure leaves the catalogue as it was;
  and a name that no community uses yet is created in one community and then in another.
\<close>

theorem create_item_duplicate:
  "(fst (add_gacha_item_modal py_int items g nm desc amt img)
       = Inl (BadArgument ''An item with that name already exists.'')
     \<longleftrightarrow> (\<exists>i \<in> set items. item_guild_id i = g \<and> name i = nm))
   \<and> (\<forall>e. fst (add_gacha_item_modal py_int items g nm desc amt img) = Inl e \<longrightarrow>
          snd (add_gacha_item_modal py_int items g nm desc amt img) = items)
   \<and> (g \<noteq> g' \<and> (\<forall>i \<in> set items. name i \<noteq> nm) \<and>
        py_int (case amt of None \<Rightarrow> ''-1'' | Some s \<Rightarrow> s) = Some n \<and> - 1 \<le> n \<longrightarrow>
        add_gacha_item_modal py_int items g nm desc amt img
          = (Inr (), items @ [\<lparr>item_guild_id = g, name = nm, item_description = desc,
                               amount = n, image = img\<rparr>])
        \<and> add_gacha_item_modal py_int
            (items @ [\<lparr>item_guild_id = g, name = nm, item_description = desc,
                               amount = n, image = img\<rparr>]) g' nm desc amt img
          = (Inr (), items @ [\<lparr>item_guild_id = g, name = nm, item_description = desc,
                               amount = n, image = img\<rparr>,
                             \<lparr>item_guild_id = g', name = nm, item_description = desc,
                               amount = n, image = img\<rparr>]))"
proof -
  let ?dup = "\<exists>i \<in> set items. item_guild_id i = g \<and> name i = nm"
  have 1: "fst (add_gacha_item_modal py_int items g nm desc amt img)
       = Inl (BadArgument ''An item with that name already exists.'') \<longleftrightarrow> ?dup"
    by (auto simp: add_gacha_item_modal_def filter_empty_conv Let_def split: option.splits)
  have 2: "\<forall>e. fst (add_gacha_item_modal py_int items g nm desc amt img) = Inl e \<longrightarrow>
          snd (add_gacha_item_modal py_int items g nm desc amt img) = items"
    by (auto simp: add_gacha_item_modal_def filter_empty_conv Let_def split: option.splits)
  have 3: "g \<noteq> g' \<and> (\<forall>i \<in> set items. name i \<noteq> nm) \<and>
        py_int (case amt of None \<Rightarrow> ''-1'' | Some s \<Rightarrow> s) = Some n \<and> - 1 \<le> n \<longrightarrow>
        add_gacha_item_modal py_int items g nm desc amt img
          = (Inr (), items @ [\<lparr>item_guild_id = g, name = nm, item_description = desc,
                               amount = n, image = img\<rparr>])
        \<and> add_gacha_item_modal py_int
            (items @ [\<lparr>item_guild_id = g, name = nm, item_description = desc,
                               amount = n, image = img\<rparr>]) g' nm desc amt img
          = (Inr (), items @ [\<lparr>item_guild_id = g, name = nm, item_description = desc,
                               amount = n, image = img\<rparr>,
                             \<lparr>item_guild_id = g', name = nm, item_description = desc,
                               amount = n, image = img\<rparr>])"
    by (auto simp: add_gacha_item_modal_def Let_def filter_empty_conv split: option.splits)
  from 1 2 3 show ?thesis by blast
qed

theorem create_item_duplicate_witness:
  "add_gacha_item_modal (\<lambda>s. if s = ''-1'' then Some (- 1) else None) [] 1 ''Badge'' ''A badge.'' None None
     = (Inr (), [\<lparr>item_guild_id = 1, name = ''Badge'', item_description = ''A badge.'',
                  amount = - 1, image = None\<rparr>])
   \<and> add_gacha_item_modal (\<lambda>s. if s = ''-1'' then Some (- 1) else None)
       [\<lparr>item_guild_id = 1, name = ''Badge'', item_description = ''A badge.'',
                  amount = - 1, image = None\<rparr>] 2 ''Badge'' ''A badge.'' None None
     = (Inr (), [\<lparr>item_guild_id = 1, name = ''Badge'', item_description = ''A badge.'',
                  amount = - 1, image = None\<rparr>,
                 \<lparr>item_guild_id = 2, name = ''Badge'', item_description = ''A badge.'',
                  amount = - 1, image = None\<rparr>])
   \<and> fst (add_gacha_item_modal (\<lambda>s. if s = ''-1'' then Some (- 1) else None)
       [\<lparr>item_guild_id = 1, name = ''Badge'', item_description = ''A badge.'',
                  amount = - 1, image = None\<rparr>] 1 ''Badge'' ''Another.'' None None)
     = Inl (BadArgument ''An item with that name already exists.'')
   \<and> snd (add_gacha_item_modal (\<lambda>s. if s = ''-1'' then Some (- 1) else None)
       [\<lparr>item_guild_id = 1, name = ''Badge'', item_description = ''A badge.'',
                  amount = - 1, image = None\<rparr>] 1 ''Badge'' ''Another.'' None None)
     = [\<lparr>item_guild_id = 1, name = ''Badge'', item_description = ''A badge.'',
                  amount = - 1, image = None\<rparr>]"
  using create_item_duplicate [of "\<lambda>s. if s = ''-1'' then Some (- 1) else None" "[]" 1 "''Badge''"
      "''A badge.''" None None 2 "- 1"]
    create_item_duplicate [of "\<lambda>s. if s = ''-1'' then Some (- 1) else None"
      "[\<lparr>item_guild_id = 1, name = ''Badge'', item_description = ''A badge.'',
                  amount = - 1, image = None\<rparr>]" 1 "''Badge''"
      "''Another.''" None None 2 "- 1"]
  by simp

end
